theory Spec2Isabelle
  imports Complex_Main "HOL-Library.AList"
begin

section \<open>Python values and their text\<close>

text \<open>
  The values a form field or a profile field holds. The code looks at a value in two ways
  only: \<^verbatim>\<open>value is not None\<close> and \<^verbatim>\<open>str(value)\<close> (also inside an f-string). A float is kept
  as the text \<^verbatim>\<open>str\<close> prints for it; float arithmetic is never done by the code.
  Strings are lists of code points below 256.
\<close>

datatype pyval = PNone | PStr string | PInt int | PBool bool | PFloat string

definition sq :: char where
  "sq = CHR 0x27"

definition bslash :: char where
  "bslash = CHR 0x5C"

fun str_nat :: "nat \<Rightarrow> string" where
  "str_nat n =
     (if n < 10 then [''0123456789'' ! n]
      else str_nat (n div 10) @ [''0123456789'' ! (n mod 10)])"

declare str_nat.simps [simp del]

definition str_int :: "int \<Rightarrow> string" where
  "str_int i = (if i < 0 then CHR ''-'' # str_nat (nat (- i)) else str_nat (nat i))"

definition py_str :: "pyval \<Rightarrow> string" where
  "py_str v =
     (case v of
        PNone \<Rightarrow> ''None''
      | PStr s \<Rightarrow> s
      | PInt i \<Rightarrow> str_int i
      | PBool b \<Rightarrow> (if b then ''True'' else ''False'')
      | PFloat s \<Rightarrow> s)"

text \<open>
  \<^verbatim>\<open>repr\<close> of a string, which is what the f-string prints for each element of a list:
  double quotes when the string has a single quote and no double quote, single quotes
  otherwise; the quote and the backslash escaped; tab, newline and return as letters;
  every other unprintable code point as \<^verbatim>\<open>\xhh\<close>.
\<close>

definition repr_quote :: "string \<Rightarrow> char" where
  "repr_quote s = (if sq \<in> set s \<and> CHR 0x22 \<notin> set s then CHR 0x22 else sq)"

definition hex2 :: "nat \<Rightarrow> string" where
  "hex2 n = [''0123456789abcdef'' ! (n div 16), ''0123456789abcdef'' ! (n mod 16)]"

definition isprintable :: "nat \<Rightarrow> bool" where
  "isprintable n = ((32 \<le> n \<and> n < 127) \<or> (161 \<le> n \<and> n \<le> 255 \<and> n \<noteq> 173))"

definition repr_char :: "char \<Rightarrow> char \<Rightarrow> string" where
  "repr_char quote c =
     (if c = quote \<or> c = bslash then [bslash, c]
      else if c = CHR 0x09 then [bslash, CHR ''t'']
      else if c = CHR 0x0A then [bslash, CHR ''n'']
      else if c = CHR 0x0D then [bslash, CHR ''r'']
      else if isprintable (of_char c) then [c]
      else [bslash, CHR ''x''] @ hex2 (of_char c))"

definition py_repr_str :: "string \<Rightarrow> string" where
  "py_repr_str s = (let q = repr_quote s in q # concat (map (repr_char q) s) @ [q])"

fun join :: "string \<Rightarrow> string list \<Rightarrow> string" where
  "join sep [] = []"
| "join sep [x] = x"
| "join sep (x # y # ys) = x @ sep @ join sep (y # ys)"

definition py_repr_list :: "string list \<Rightarrow> string" where
  "py_repr_list xs = ''['' @ join '', '' (map py_repr_str xs) @ '']''"

section \<open>Dictionaries\<close>

text \<open>
  A Python dict keeps its keys in insertion order, and \<^verbatim>\<open>validate\<close> walks them in that
  order, so a dict is an association list; a well-formed one has distinct keys.
  \<^verbatim>\<open>d[k] = v\<close> is \<^const>\<open>AList.update\<close>: an existing key keeps its place, a new one goes last.
  \<^verbatim>\<open>{**a, **b}\<close> copies \<^verbatim>\<open>a\<close> and then stores the items of \<^verbatim>\<open>b\<close> in order.
\<close>

type_synonym dict = "(string \<times> pyval) list"

definition dict_merge :: "dict \<Rightarrow> dict \<Rightarrow> dict" where
  "dict_merge a b = fold (\<lambda>(k, v). AList.update k v) b a"

section \<open>Exceptions (exceptions.py)\<close>

text \<open>
  One constructor per exception class the code raises or declares, with the attributes
  the class stores: \<^verbatim>\<open>APIError(message, status_code=None)\<close>,
  \<^verbatim>\<open>RateLimitError(message, retry_after=None)\<close> (its status code is always 429),
  \<^verbatim>\<open>AuthenticationError(message)\<close> (401), \<^verbatim>\<open>InsufficientCreditsError(message)\<close> (402).
  \<^verbatim>\<open>ValueError\<close>, \<^verbatim>\<open>AttributeError\<close>, \<^verbatim>\<open>TypeError\<close> and \<^verbatim>\<open>OverflowError\<close> are Python's own.
\<close>

datatype error =
    FurSightError string
  | ValidationError string
  | APIError string "int option"
  | RateLimitError string "int option"
  | AuthenticationError string
  | InsufficientCreditsError string
  | ValueError string
  | AttributeError string
  | TypeError string
  | OverflowError string

datatype exc_class =
    CException | CFurSightError | CValidationError | CAPIError | CRateLimitError
  | CAuthenticationError | CInsufficientCreditsError | CValueError | CAttributeError
  | CTypeError | CArithmeticError | COverflowError

fun class_of :: "error \<Rightarrow> exc_class" where
  "class_of (FurSightError m) = CFurSightError"
| "class_of (ValidationError m) = CValidationError"
| "class_of (APIError m s) = CAPIError"
| "class_of (RateLimitError m r) = CRateLimitError"
| "class_of (AuthenticationError m) = CAuthenticationError"
| "class_of (InsufficientCreditsError m) = CInsufficientCreditsError"
| "class_of (ValueError m) = CValueError"
| "class_of (AttributeError m) = CAttributeError"
| "class_of (TypeError m) = CTypeError"
| "class_of (OverflowError m) = COverflowError"

text \<open>The proper ancestors of each class, nearest first, as the class statements give them.\<close>

fun bases :: "exc_class \<Rightarrow> exc_class list" where
  "bases CException = []"
| "bases CFurSightError = [CException]"
| "bases CValidationError = [CFurSightError, CException]"
| "bases CAPIError = [CFurSightError, CException]"
| "bases CRateLimitError = [CAPIError, CFurSightError, CException]"
| "bases CAuthenticationError = [CAPIError, CFurSightError, CException]"
| "bases CInsufficientCreditsError = [CAPIError, CFurSightError, CException]"
| "bases CValueError = [CException]"
| "bases CAttributeError = [CException]"
| "bases CTypeError = [CException]"
| "bases CArithmeticError = [CException]"
| "bases COverflowError = [CArithmeticError, CException]"

definition caught_by :: "error \<Rightarrow> exc_class \<Rightarrow> bool" where
  \<comment> \<open>whether \<^verbatim>\<open>except cls\<close> catches the error\<close>
  "caught_by e cls = (class_of e = cls \<or> cls \<in> set (bases (class_of e)))"

section \<open>The clock, the network and the trace of effects\<close>

text \<open>
  \<^verbatim>\<open>time.time()\<close> reads \<open>now\<close>; \<^verbatim>\<open>time.sleep(d)\<close> moves it forward by \<open>d\<close> and raises
  \<^verbatim>\<open>ValueError\<close> for a negative \<open>d\<close>. Clock readings are reals (float rounding and the time a
  request itself takes are not modelled). Every sleep, every write of the
  \<^verbatim>\<open>last_request_time\<close> marker and every request handed to \<^verbatim>\<open>session.request\<close> is appended to
  the trace.
\<close>

record request =
  http_method :: string
  endpoint :: string
  json :: "dict option"
  params :: "(string \<times> pyval) list"

datatype event = Slept real | MarkerSet real | Dispatched request

record world =
  now :: real
  trace :: "event list"

definition time_sleep :: "real \<Rightarrow> world \<Rightarrow> error + world" where
  "time_sleep d w =
     (if d < 0 then Inl (ValueError ''sleep length must be non-negative'')
      else Inr (w\<lparr>now := now w + d, trace := trace w @ [Slept d]\<rparr>))"

text \<open>
  \<^verbatim>\<open>time.sleep\<close> first converts the length to a 64-bit count of nanoseconds and raises
  \<^verbatim>\<open>OverflowError\<close> when it does not fit: for a whole number of seconds, when it is above
  9223372036 or below -9223372036. Only then does it refuse a negative length. This test
  is modelled where the length is whatever integer the server sent,
  \<^verbatim>\<open>time.sleep(retry_after)\<close>. The lengths the client computes itself are left to
  \<^const>\<open>time_sleep\<close>: the pacing rest is at most the interval, and \<^verbatim>\<open>2 ** attempt\<close> passes the
  bound first at attempt 34, which a call reaches only after sleeping \<open>2 ^ 34 - 1\<close> seconds.
\<close>

definition max_sleep_seconds :: int where
  \<comment> \<open>\<open>(2 ^ 63 - 1) div 10 ^ 9\<close>\<close>
  "max_sleep_seconds = 9223372036"

definition time_sleep_seconds :: "int \<Rightarrow> world \<Rightarrow> error + world" where
  "time_sleep_seconds n w =
     (if n < - max_sleep_seconds \<or> max_sleep_seconds < n
      then Inl (OverflowError ''timestamp too large to convert to C _PyTime_t'')
      else time_sleep (of_int n) w)"

text \<open>
  What one attempt meets: a response, \<^verbatim>\<open>requests.exceptions.Timeout\<close>, or another
  \<^verbatim>\<open>RequestException\<close> with its text. Of a response the executor reads the status code, the
  \<^verbatim>\<open>Retry-After\<close> header, and on an error status the body: \<^verbatim>\<open>response.json()\<close> followed by
  \<^verbatim>\<open>.get('detail', ...)\<close> yields the \<^verbatim>\<open>detail\<close> member of a JSON object, and raises (into the bare
  \<^verbatim>\<open>except\<close>) when the body is not JSON or not an object. The header text is given with what
  \<^verbatim>\<open>int()\<close> makes of it: an integer, or \<^verbatim>\<open>ValueError\<close>.
\<close>

datatype header_value = IntText int | OtherText string

datatype body = JsonObject "string option" | NotJsonObject

record response =
  status_code :: int
  retry_after_header :: "header_value option"
  body :: body
  body_text :: string

datatype outcome = Response response | Timeout | RequestException string

definition ok :: "response \<Rightarrow> bool" where
  \<comment> \<open>\<^verbatim>\<open>requests.Response.ok\<close>: false exactly when \<^verbatim>\<open>raise_for_status()\<close> raises, for 400..599\<close>
  "ok r = (\<not> (400 \<le> status_code r \<and> status_code r < 600))"

definition dispatch :: "request \<Rightarrow> world \<Rightarrow> world" where
  "dispatch rq w = w\<lparr>trace := trace w @ [Dispatched rq]\<rparr>"

section \<open>The client (client.py)\<close>

record client =
  api_key :: string
  base_url :: string
  timeout :: int
  max_retries :: int
  last_request_time :: real
  min_request_interval :: real

definition wait_for_rate_limit :: "client \<Rightarrow> world \<Rightarrow> client \<times> world" where
  "wait_for_rate_limit c w =
     (let elapsed = now w - last_request_time c;
          w1 = (if elapsed < min_request_interval c
                then (case time_sleep (min_request_interval c - elapsed) w of
                        Inr w' \<Rightarrow> w' | Inl e \<Rightarrow> w)
                else w)
      in (c\<lparr>last_request_time := now w1\<rparr>, w1\<lparr>trace := trace w1 @ [MarkerSet (now w1)]\<rparr>))"

definition int_retry_after :: "response \<Rightarrow> error + int" where
  \<comment> \<open>\<^verbatim>\<open>int(response.headers.get('Retry-After', 60))\<close>\<close>
  "int_retry_after r =
     (case retry_after_header r of
        None \<Rightarrow> Inr 60
      | Some (IntText n) \<Rightarrow> Inr n
      | Some (OtherText s) \<Rightarrow>
          Inl (ValueError (''invalid literal for int() with base 10: '' @ py_repr_str s)))"

definition error_message :: "response \<Rightarrow> string" where
  "error_message r =
     (case body r of
        JsonObject (Some detail) \<Rightarrow> detail
      | JsonObject None \<Rightarrow> ''HTTP '' @ str_int (status_code r)
      | NotJsonObject \<Rightarrow> ''HTTP '' @ str_int (status_code r) @ '': '' @ body_text r)"

definition http_error :: "response \<Rightarrow> error" where
  "http_error r =
     (if status_code r = 400 then ValidationError (error_message r)
      else if status_code r = 401 then APIError ''Invalid API key'' None
      else if status_code r = 402 then APIError ''Insufficient credits'' None
      else APIError (error_message r) None)"

text \<open>
  The retry loop of \<^verbatim>\<open>_make_request\<close>, \<^verbatim>\<open>for attempt in range(self.max_retries)\<close>, as a
  recursion on \<open>attempt\<close>; \<open>net attempt\<close> is what the attempt meets. The exceptions the body
  raises itself, and \<^verbatim>\<open>ValueError\<close> and \<^verbatim>\<open>OverflowError\<close>, are not \<^verbatim>\<open>RequestException\<close>s, so
  they leave the loop.
\<close>

function attempts ::
  "client \<Rightarrow> (nat \<Rightarrow> outcome) \<Rightarrow> request \<Rightarrow> nat \<Rightarrow> world \<Rightarrow> (error + response) \<times> world"
where
  "attempts c net rq attempt w =
     (if \<not> int attempt < max_retries c then (Inl (FurSightError ''Max retries exceeded''), w)
      else
        (case net attempt of
           Response r \<Rightarrow>
             if status_code r = 429 then
               (case int_retry_after r of
                  Inl e \<Rightarrow> (Inl e, dispatch rq w)
                | Inr retry_after \<Rightarrow>
                    if int attempt = max_retries c - 1 then
                      (Inl (RateLimitError
                              (''Rate limit exceeded. Retry after '' @ str_int retry_after
                                 @ '' seconds.'') None),
                       dispatch rq w)
                    else
                      (case time_sleep_seconds retry_after (dispatch rq w) of
                         Inl e \<Rightarrow> (Inl e, dispatch rq w)
                       | Inr w' \<Rightarrow> attempts c net rq (Suc attempt) w'))
             else if \<not> ok r then (Inl (http_error r), dispatch rq w)
             else (Inr r, dispatch rq w)
         | Timeout \<Rightarrow>
             if int attempt = max_retries c - 1 then
               (Inl (FurSightError
                       (''Request timeout after '' @ str_int (timeout c) @ '' seconds'')),
                dispatch rq w)
             else
               (case time_sleep (2 ^ attempt) (dispatch rq w) of
                  Inl e \<Rightarrow> (Inl e, dispatch rq w)
                | Inr w' \<Rightarrow> attempts c net rq (Suc attempt) w')
         | RequestException e \<Rightarrow>
             if int attempt = max_retries c - 1 then
               (Inl (FurSightError (''Request failed: '' @ e)), dispatch rq w)
             else
               (case time_sleep (2 ^ attempt) (dispatch rq w) of
                  Inl e \<Rightarrow> (Inl e, dispatch rq w)
                | Inr w' \<Rightarrow> attempts c net rq (Suc attempt) w')))"
  by pat_completeness auto
termination
  by (relation "measure (\<lambda>(c, net, rq, attempt, w). nat (max_retries c - int attempt))") auto

declare attempts.simps [simp del]

definition make_request ::
  "client \<Rightarrow> (nat \<Rightarrow> outcome) \<Rightarrow> request \<Rightarrow> world \<Rightarrow> (error + response) \<times> client \<times> world"
where
  "make_request c net rq w =
     (let (c1, w1) = wait_for_rate_limit c w;
          (res, w2) = attempts c1 net rq 0 w1
      in (res, c1, w2))"

section \<open>The profile models (models.py) and the prediction call\<close>

text \<open>
  \<^verbatim>\<open>model_dump()\<close> of a profile model lists every declared field in declaration order, with
  the default \<^verbatim>\<open>None\<close> for a field that was never set. A model instance is given by the value
  of each field (what pydantic made of the constructor's arguments).
\<close>

definition AdopterProfile_fields :: "string list" where
  "AdopterProfile_fields =
    [''adopter_housing_type'', ''adopter_home_ownership_status'',
     ''adopter_landlord_permission'', ''adopter_yard_type'', ''adopter_fence_type'',
     ''adopter_fence_height_ft'', ''adopter_household_members'', ''adopter_has_kids'',
     ''adopter_num_kids'', ''adopter_kids_ages'', ''adopter_kids_dog_experience'',
     ''adopter_household_allergies'', ''adopter_allergy_severity'',
     ''adopter_hypoallergenic_preference'', ''adopter_hours_dog_left_alone'',
     ''adopter_daytime_presence'', ''adopter_move_plan_within_6mo'',
     ''adopter_monthly_dog_budget_usd'', ''adopter_can_afford_vet_grooming'',
     ''adopter_preferred_breed'', ''adopter_preferred_breed_status'',
     ''adopter_preferred_age'', ''adopter_preferred_size'',
     ''adopter_preferred_energy_level'', ''adopter_desired_temperament'',
     ''adopter_preferred_sex'', ''adopter_preferred_housetraining_status'',
     ''adopter_okay_with_medical_needs'', ''adopter_okay_with_behavior_issues'',
     ''adopter_reason_for_adoption'', ''adopter_exercise_routine'',
     ''adopter_exercise_frequency_per_week'', ''adopter_discipline_method'',
     ''adopter_training_plan'', ''adopter_leash_behavior'',
     ''adopter_dog_sleeping_area'', ''adopter_previous_dog_experience'',
     ''adopter_pitbull_experience'', ''adopter_owned_dogs_last_5yrs'',
     ''adopter_previous_pet_outcome'', ''adopter_has_other_pets'',
     ''adopter_other_pets_info'', ''adopter_pets_adjustment_expectation'',
     ''adopter_experience_with_issues'', ''adopter_surrender_risks'',
     ''adopter_long_term_commitment'', ''adopter_pet_loss_plan'',
     ''adopter_preparation_confidence'', ''adopter_adopter_breed_restrictions'',
     ''adopter_rewritten_adopter_letter'']"

definition DogProfile_fields :: "string list" where
  "DogProfile_fields =
    [''dog_breed'', ''dog_primaryBreed'', ''dog_secondaryBreed'', ''dog_sex'',
     ''dog_mixed'', ''dog_age'', ''dog_birthdate'', ''dog_altered'', ''dog_dogs'',
     ''dog_cats'', ''dog_kids'', ''dog_oKWithAdults'', ''dog_oKForSeniors'',
     ''dog_oKWithFarmAnimals'', ''dog_size'', ''dog_sizeCurrent'',
     ''dog_sizePotential'', ''dog_sizeUOM'', ''dog_color'', ''dog_coatLength'',
     ''dog_pattern'', ''dog_earType'', ''dog_eyeColor'', ''dog_tailType'',
     ''dog_housetrained'', ''dog_obedienceTraining'', ''dog_leashtrained'',
     ''dog_cratetrained'', ''dog_ownerExperience'', ''dog_exerciseNeeds'',
     ''dog_energyLevel'', ''dog_activityLevel'', ''dog_yardRequired'', ''dog_fence'',
     ''dog_groomingNeeds'', ''dog_shedding'', ''dog_hypoallergenic'',
     ''dog_specialNeeds'', ''dog_uptodate'', ''dog_declawed'', ''dog_hasAllergies'',
     ''dog_specialDiet'', ''dog_ongoingMedical'', ''dog_hearingImpaired'',
     ''dog_sightImpaired'', ''dog_obedient'', ''dog_playful'', ''dog_timid'',
     ''dog_skittish'', ''dog_independent'', ''dog_affectionate'', ''dog_eagerToPlease'',
     ''dog_intelligent'', ''dog_eventempered'', ''dog_gentle'', ''dog_goofy'',
     ''dog_newPeople'', ''dog_vocal'', ''dog_goodInCar'', ''dog_fetches'',
     ''dog_playsToys'', ''dog_swims'', ''dog_lap'', ''dog_drools'', ''dog_protective'',
     ''dog_escapes'', ''dog_predatory'', ''dog_apartment'', ''dog_noHeat'',
     ''dog_noCold'', ''dog_combined_breeds'', ''dog_enriched_profile'']"

type_synonym profile = "string \<Rightarrow> pyval"

definition new_profile :: "dict \<Rightarrow> profile" where
  \<comment> \<open>the instance the constructor builds from keyword arguments: every other field \<^verbatim>\<open>None\<close>\<close>
  "new_profile kwargs = (\<lambda>name. case map_of kwargs name of None \<Rightarrow> PNone | Some v \<Rightarrow> v)"

definition model_dump :: "string list \<Rightarrow> profile \<Rightarrow> dict" where
  "model_dump names p = map (\<lambda>name. (name, p name)) names"

datatype adopter_arg = AdopterDict dict | AdopterModel profile

datatype dog_arg = DogDict dict | DogModel profile

definition adopter_to_dict :: "adopter_arg \<Rightarrow> dict" where
  \<comment> \<open>\<^verbatim>\<open>if isinstance(adopter_data, AdopterProfile): adopter_data = adopter_data.model_dump()\<close>\<close>
  "adopter_to_dict adopter =
     (case adopter of
        AdopterModel p \<Rightarrow> model_dump AdopterProfile_fields p
      | AdopterDict d \<Rightarrow> d)"

definition dog_to_dict :: "dog_arg \<Rightarrow> dict" where
  "dog_to_dict dog =
     (case dog of
        DogModel p \<Rightarrow> model_dump DogProfile_fields p
      | DogDict d \<Rightarrow> d)"

definition prediction_data :: "adopter_arg \<Rightarrow> dog_arg \<Rightarrow> dict" where
  "prediction_data adopter dog = dict_merge (adopter_to_dict adopter) (dog_to_dict dog)"

text \<open>
  \<^verbatim>\<open>predict_single\<close> up to the response: building \<^verbatim>\<open>PredictionResponse\<close> from the body is
  left out.
\<close>

definition predict_single ::
  "client \<Rightarrow> (nat \<Rightarrow> outcome) \<Rightarrow> adopter_arg \<Rightarrow> dog_arg \<Rightarrow> bool \<Rightarrow> world
     \<Rightarrow> (error + response) \<times> client \<times> world"
where
  "predict_single c net adopter dog include_explanation w =
     make_request c net
       \<lparr>http_method = ''POST'', endpoint = ''/predict/single'',
        json = Some (prediction_data adopter dog),
        params = [(''include_explanation'', PBool include_explanation)]\<rparr> w"

text \<open>
  The class body of \<^verbatim>\<open>FurSightClient\<close> defines the methods below and no other, and
  \<^verbatim>\<open>__init__\<close> sets the attributes below: the batch prediction, dropdown-values and letter
  and profile generation methods were removed (client.py, the comments at lines 183, 200,
  203 and 206). Looking up a name that is in neither list on a client raises
  \<^verbatim>\<open>AttributeError\<close> before anything is called. (The names every Python object inherits are
  not listed; none of them is looked up by the code.)
\<close>

definition FurSightClient_methods :: "string list" where
  "FurSightClient_methods =
    [''__init__'', ''_wait_for_rate_limit'', ''_make_request'', ''predict_single'',
     ''get_sample_data'', ''get_health'', ''get_model_info'', ''get_prediction_bands'']"

definition FurSightClient_attributes :: "string list" where
  "FurSightClient_attributes =
    [''api_key'', ''base_url'', ''timeout'', ''max_retries'', ''session'',
     ''last_request_time'', ''min_request_interval'']"

definition no_attribute :: "string \<Rightarrow> error" where
  "no_attribute name =
     AttributeError
       ([sq] @ ''FurSightClient'' @ [sq] @ '' object has no attribute '' @ [sq] @ name @ [sq])"

definition client_getattr :: "string \<Rightarrow> error + unit" where
  "client_getattr name =
     (if name \<in> set FurSightClient_methods \<or> name \<in> set FurSightClient_attributes
      then Inr ()
      else Inl (no_attribute name))"

text \<open>
  A call \<^verbatim>\<open>client.name(...)\<close> of one of the removed methods: the lookup of the name fails,
  and neither the client nor the world is touched. The second case answers a name that is
  found, which none of the four removed names is: calling a data attribute raises
  \<^verbatim>\<open>TypeError\<close>, and a method the class does define has its own definition in this theory.
\<close>

definition call_removed :: "string \<Rightarrow> client \<Rightarrow> world \<Rightarrow> (error + 'a) \<times> client \<times> world" where
  "call_removed name c w =
     (case client_getattr name of
        Inl e \<Rightarrow> (Inl e, c, w)
      | Inr u \<Rightarrow> (Inl (TypeError (name @ '' is not a removed method'')), c, w))"

definition client_predict_batch :: "client \<Rightarrow> world \<Rightarrow> (error + response) \<times> client \<times> world" where
  "client_predict_batch = call_removed ''predict_batch''"

definition client_get_dropdown_values ::
  "client \<Rightarrow> world \<Rightarrow> (error + (string \<rightharpoonup> string list)) \<times> client \<times> world"
where
  "client_get_dropdown_values = call_removed ''get_dropdown_values''"

definition client_generate_adopter_letter ::
  "dict \<Rightarrow> client \<Rightarrow> world \<Rightarrow> (error + string) \<times> client \<times> world"
where
  "client_generate_adopter_letter combined_data = call_removed ''generate_adopter_letter''"

definition client_generate_dog_profile ::
  "dict \<Rightarrow> client \<Rightarrow> world \<Rightarrow> (error + string) \<times> client \<times> world"
where
  "client_generate_dog_profile combined_data = call_removed ''generate_dog_profile''"

section \<open>The adoption form (forms.py)\<close>

text \<open>
  The form's four private attributes and its client. The allowed-values table is only looked
  up by key, so it is a map.
\<close>

record AdoptionForm =
  form_client :: client
  adopter_data :: dict
  dog_data :: dict
  dropdown_values :: "(string \<rightharpoonup> string list) option"
  sample_data :: "dict option"

definition AdoptionForm_init :: "client \<Rightarrow> AdoptionForm" where
  \<comment> \<open>\<^verbatim>\<open>AdoptionForm(client)\<close>\<close>
  "AdoptionForm_init c =
     \<lparr>form_client = c, adopter_data = [], dog_data = [], dropdown_values = None,
      sample_data = None\<rparr>"

definition set_adopter_field :: "string \<Rightarrow> pyval \<Rightarrow> AdoptionForm \<Rightarrow> AdoptionForm" where
  "set_adopter_field field_name v form =
     form\<lparr>adopter_data := AList.update field_name v (adopter_data form)\<rparr>"

definition set_dog_field :: "string \<Rightarrow> pyval \<Rightarrow> AdoptionForm \<Rightarrow> AdoptionForm" where
  "set_dog_field field_name v form =
     form\<lparr>dog_data := AList.update field_name v (dog_data form)\<rparr>"

definition get_dropdown_values ::
  "AdoptionForm \<Rightarrow> world \<Rightarrow> (error + (string \<rightharpoonup> string list)) \<times> AdoptionForm \<times> world"
where
  "get_dropdown_values form w =
     (case dropdown_values form of
        None \<Rightarrow>
          (case client_get_dropdown_values (form_client form) w of
             (Inl e, c', w') \<Rightarrow> (Inl e, form\<lparr>form_client := c'\<rparr>, w')
           | (Inr t, c', w') \<Rightarrow>
               (Inr t, form\<lparr>form_client := c', dropdown_values := Some t\<rparr>, w'))
      | Some t \<Rightarrow> (Inr t, form, w))"

definition field_error :: "string \<Rightarrow> string list \<Rightarrow> pyval \<Rightarrow> error" where
  "field_error field_name allowed_values v =
     ValidationError
       (''Field '' @ [sq] @ field_name @ [sq] @ '' must be one of: ''
          @ py_repr_list (take 5 allowed_values)
          @ (if length allowed_values > 5 then ''...'' else [])
          @ ''. '' @ ''Received: '' @ [sq] @ py_str v @ [sq])"

definition validate_field ::
  "AdoptionForm \<Rightarrow> string \<Rightarrow> pyval \<Rightarrow> world \<Rightarrow> (error + bool) \<times> AdoptionForm \<times> world"
where
  "validate_field form field_name v w =
     (case get_dropdown_values form w of
        (Inl e, form', w') \<Rightarrow> (Inl e, form', w')
      | (Inr table, form', w') \<Rightarrow>
          (case table field_name of
             Some allowed_values \<Rightarrow>
               if allowed_values \<noteq> [] \<and> py_str v \<notin> set allowed_values
               then (Inl (field_error field_name allowed_values v), form', w')
               else (Inr True, form', w')
           | None \<Rightarrow> (Inr True, form', w')))"

text \<open>One of the two loops of \<^verbatim>\<open>validate\<close>, over the items of a partition in order.\<close>

fun validate_items ::
  "AdoptionForm \<Rightarrow> dict \<Rightarrow> world \<Rightarrow> (error + unit) \<times> AdoptionForm \<times> world"
where
  "validate_items form [] w = (Inr (), form, w)"
| "validate_items form ((field_name, v) # rest) w =
     (if v \<noteq> PNone then
        (case validate_field form field_name v w of
           (Inl e, form', w') \<Rightarrow> (Inl e, form', w')
         | (Inr b, form', w') \<Rightarrow> validate_items form' rest w')
      else validate_items form rest w)"

definition no_data_error :: error where
  "no_data_error = ValidationError ''Form must contain at least some adopter and dog data''"

definition validate :: "AdoptionForm \<Rightarrow> world \<Rightarrow> (error + bool) \<times> AdoptionForm \<times> world" where
  "validate form w =
     (case validate_items form (adopter_data form) w of
        (Inl e, form1, w1) \<Rightarrow> (Inl e, form1, w1)
      | (Inr u, form1, w1) \<Rightarrow>
          (case validate_items form1 (dog_data form1) w1 of
             (Inl e, form2, w2) \<Rightarrow> (Inl e, form2, w2)
           | (Inr u', form2, w2) \<Rightarrow>
               if adopter_data form2 = [] \<and> dog_data form2 = []
               then (Inl no_data_error, form2, w2)
               else (Inr True, form2, w2)))"

definition to_dict :: "AdoptionForm \<Rightarrow> dict" where
  "to_dict form = dict_merge (adopter_data form) (dog_data form)"

definition generate_adopter_letter ::
  "AdoptionForm \<Rightarrow> world \<Rightarrow> (error + string) \<times> AdoptionForm \<times> world"
where
  "generate_adopter_letter form w =
     (let combined_data = dict_merge (adopter_data form) (dog_data form) in
      case client_generate_adopter_letter combined_data (form_client form) w of
        (res, c', w') \<Rightarrow> (res, form\<lparr>form_client := c'\<rparr>, w'))"

definition generate_dog_profile ::
  "AdoptionForm \<Rightarrow> world \<Rightarrow> (error + string) \<times> AdoptionForm \<times> world"
where
  "generate_dog_profile form w =
     (let combined_data = dict_merge (adopter_data form) (dog_data form) in
      case client_generate_dog_profile combined_data (form_client form) w of
        (res, c', w') \<Rightarrow> (res, form\<lparr>form_client := c'\<rparr>, w'))"

definition submit ::
  "AdoptionForm \<Rightarrow> (nat \<Rightarrow> outcome) \<Rightarrow> bool \<Rightarrow> world
     \<Rightarrow> (error + response) \<times> AdoptionForm \<times> world"
where
  "submit form net include_explanation w =
     (case validate form w of
        (Inl e, form1, w1) \<Rightarrow> (Inl e, form1, w1)
      | (Inr b, form1, w1) \<Rightarrow>
          (case predict_single (form_client form1) net (AdopterDict (adopter_data form1))
                  (DogDict (dog_data form1)) include_explanation w1 of
             (res, c', w2) \<Rightarrow> (res, form1\<lparr>form_client := c'\<rparr>, w2)))"



section \<open>Reading the trace\<close>

fun is_marker :: "event \<Rightarrow> bool" where
  "is_marker (MarkerSet t) = True"
| "is_marker e = False"

fun is_dispatch :: "event \<Rightarrow> bool" where
  "is_dispatch (Dispatched rq) = True"
| "is_dispatch e = False"

definition marker_updates :: "event list \<Rightarrow> nat" where
  \<comment> \<open>how many times the \<^verbatim>\<open>last_request_time\<close> marker was written\<close>
  "marker_updates es = length (filter is_marker es)"

definition dispatches :: "event list \<Rightarrow> nat" where
  \<comment> \<open>how many attempts were handed to the network\<close>
  "dispatches es = length (filter is_dispatch es)"

section \<open>Conditions the statements speak of\<close>

text \<open>
  A field that fails its check: it is not \<^verbatim>\<open>None\<close>, the table lists its name with a
  non-empty list, and the text of its value is not in that list.
\<close>

definition field_violation :: "(string \<rightharpoonup> string list) \<Rightarrow> string \<times> pyval \<Rightarrow> bool" where
  "field_violation table item =
     (snd item \<noteq> PNone \<and>
      (case table (fst item) of
         None \<Rightarrow> False
       | Some allowed_values \<Rightarrow> allowed_values \<noteq> [] \<and> py_str (snd item) \<notin> set allowed_values))"

text \<open>
  An attempt that fails at the transport level: it meets a timeout or another
  \<^verbatim>\<open>RequestException\<close>, not a response.
\<close>

definition transport_failure :: "outcome \<Rightarrow> bool" where
  "transport_failure out =
     (case out of Response r \<Rightarrow> False | Timeout \<Rightarrow> True | RequestException e \<Rightarrow> True)"

text \<open>
  What the last attempt raises when it fails at the transport level, by the two
  \<^verbatim>\<open>except\<close> clauses. (A response is no transport failure; the third case is there to make
  the function total and no statement uses it.)
\<close>

definition terminal_error :: "client \<Rightarrow> outcome \<Rightarrow> error" where
  "terminal_error c out =
     (case out of
        Timeout \<Rightarrow> FurSightError (''Request timeout after '' @ str_int (timeout c) @ '' seconds'')
      | RequestException e \<Rightarrow> FurSightError (''Request failed: '' @ e)
      | Response r \<Rightarrow> FurSightError ''Max retries exceeded'')"

section \<open>Concrete inputs\<close>

definition demo_client :: client where
  "demo_client = \<lparr>api_key = ''key'', base_url = ''https://api.fursight.ai'', timeout = 30,
     max_retries = 3, last_request_time = 0, min_request_interval = 0.1\<rparr>"

definition demo_world :: world where
  "demo_world = \<lparr>now = 0, trace = []\<rparr>"

definition demo_request :: request where
  "demo_request = \<lparr>http_method = ''GET'', endpoint = ''/health'', json = None, params = []\<rparr>"

definition demo_response :: "int \<Rightarrow> response" where
  "demo_response s =
     \<lparr>status_code = s, retry_after_header = None, body = NotJsonObject, body_text = ''no''\<rparr>"


definition size_table :: "string \<rightharpoonup> string list" where
  "size_table = [''dog_size'' \<mapsto> [''Small'', ''Medium'', ''Large'']]"

definition long_table :: "string \<rightharpoonup> string list" where
  "long_table =
     [''dog_age'' \<mapsto> [''Puppy'', ''Young'', ''Adult'', ''Mature'', ''Senior'', ''Geriatric'']]"

definition demo_form ::
  "dict \<Rightarrow> dict \<Rightarrow> (string \<rightharpoonup> string list) option \<Rightarrow> AdoptionForm"
where
  "demo_form a d t =
     \<lparr>form_client = demo_client, adopter_data = a, dog_data = d, dropdown_values = t,
      sample_data = None\<rparr>"

definition none_adopter :: dict where
  "none_adopter = [(''adopter_has_kids'', PStr ''No''), (''adopter_num_kids'', PNone)]"

definition small_dog :: dict where
  "small_dog = [(''dog_size'', PStr ''Small'')]"

section \<open>Validation changes nothing\<close>

lemma client_getattr_removed:
  "client_getattr ''predict_batch'' = Inl (no_attribute ''predict_batch'')"
  "client_getattr ''get_dropdown_values'' = Inl (no_attribute ''get_dropdown_values'')"
  "client_getattr ''generate_adopter_letter'' = Inl (no_attribute ''generate_adopter_letter'')"
  "client_getattr ''generate_dog_profile'' = Inl (no_attribute ''generate_dog_profile'')"
  by (simp_all add: client_getattr_def FurSightClient_methods_def FurSightClient_attributes_def)

lemma client_get_dropdown_values_fails:
  "client_get_dropdown_values c w = (Inl (no_attribute ''get_dropdown_values''), c, w)"
  by (simp add: client_get_dropdown_values_def call_removed_def client_getattr_removed)

lemma get_dropdown_values_frame: "snd (get_dropdown_values form w) = (form, w)"
  by (simp add: get_dropdown_values_def client_get_dropdown_values_fails split: option.split)

lemma get_dropdown_values_cached:
  "dropdown_values form = Some table \<Longrightarrow> get_dropdown_values form w = (Inr table, form, w)"
  by (simp add: get_dropdown_values_def)

lemma validate_field_frame: "snd (validate_field form k v w) = (form, w)"
proof -
  obtain res where "get_dropdown_values form w = (res, form, w)"
    using get_dropdown_values_frame [of form w] by (cases "get_dropdown_values form w") auto
  then show ?thesis
    by (simp add: validate_field_def split: sum.split option.split)
qed

lemma validate_items_frame: "snd (validate_items form xs w) = (form, w)"
proof (induction xs)
  case Nil
  show ?case by simp
next
  case (Cons x xs)
  obtain k v where x: "x = (k, v)" by (cases x)
  obtain res where r: "validate_field form k v w = (res, form, w)"
    using validate_field_frame [of form k v w] by (cases "validate_field form k v w") auto
  show ?case using Cons.IH by (simp add: x r split: sum.split)
qed

text \<open>
  C10. \<^verbatim>\<open>validate()\<close> leaves the form as it was: the adopter partition, the dog partition,
  the cached allowed-values table and the cached sample data (and the form's client) are the
  same after the call as before, whether it returns \<^verbatim>\<open>True\<close> or raises; the clock and the
  trace of effects are untouched too. The only write in its reach,
  \<^verbatim>\<open>self._dropdown_values = self.client.get_dropdown_values()\<close>, is never completed: the client
  has no such method, so the right-hand side raises first.
\<close>

theorem validate_leaves_form_unchanged:
  "fst (snd (validate form w)) = form \<and> snd (snd (validate form w)) = w"
proof -
  obtain r1 where r1: "validate_items form (adopter_data form) w = (r1, form, w)"
    using validate_items_frame [of form "adopter_data form" w]
    by (cases "validate_items form (adopter_data form) w") auto
  obtain r2 where r2: "validate_items form (dog_data form) w = (r2, form, w)"
    using validate_items_frame [of form "dog_data form" w]
    by (cases "validate_items form (dog_data form) w") auto
  show ?thesis by (simp add: validate_def r1 r2 split: sum.split)
qed



section \<open>Validating a form that has data\<close>

lemma validate_field_uncached:
  "dropdown_values form = None \<Longrightarrow>
     validate_field form k v w = (Inl (no_attribute ''get_dropdown_values''), form, w)"
  by (simp add: validate_field_def get_dropdown_values_def client_get_dropdown_values_fails)

lemma validate_items_all_none:
  "\<forall>x \<in> set xs. snd x = PNone \<Longrightarrow> validate_items form xs w = (Inr (), form, w)"
  by (induction xs) auto

lemma validate_items_uncached:
  "dropdown_values form = None \<Longrightarrow> \<exists>x \<in> set xs. snd x \<noteq> PNone \<Longrightarrow>
     validate_items form xs w = (Inl (no_attribute ''get_dropdown_values''), form, w)"
proof (induction xs)
  case Nil
  then show ?case by simp
next
  case (Cons x xs)
  obtain k v where x: "x = (k, v)" by (cases x)
  show ?case
  proof (cases "v = PNone")
    case True
    with Cons show ?thesis by (simp add: x)
  next
    case False
    with Cons.prems(1) show ?thesis by (simp add: x validate_field_uncached)
  qed
qed

lemma validate_uncached:
  assumes "dropdown_values form = None"
    and "\<exists>x \<in> set (adopter_data form @ dog_data form). snd x \<noteq> PNone"
  shows "validate form w = (Inl (no_attribute ''get_dropdown_values''), form, w)"
proof (cases "\<exists>x \<in> set (adopter_data form). snd x \<noteq> PNone")
  case True
  then show ?thesis
    using assms(1) by (simp add: validate_def validate_items_uncached)
next
  case False
  then have a: "validate_items form (adopter_data form) w = (Inr (), form, w)"
    by (simp add: validate_items_all_none)
  from False assms(2) have "\<exists>x \<in> set (dog_data form). snd x \<noteq> PNone" by auto
  then show ?thesis
    using assms(1) a by (simp add: validate_def validate_items_uncached)
qed

text \<open>
  C7. The first half holds: on a form whose partitions are both empty \<^verbatim>\<open>validate()\<close> raises
  the "no data" error. The second half does not hold of the code: on the form that
  \<^verbatim>\<open>AdoptionForm(client).set_dog_field('dog_size', 'Medium')\<close> builds, one partition is
  non-empty and there is no allowed-values table to violate, yet \<^verbatim>\<open>validate()\<close> does not
  return \<^verbatim>\<open>True\<close>: the first field check calls \<^verbatim>\<open>self.client.get_dropdown_values()\<close>, a method
  the client no longer has, and \<^verbatim>\<open>AttributeError\<close> leaves \<^verbatim>\<open>validate()\<close>. The same happens on
  every form without a cached table that holds a value other than \<^verbatim>\<open>None\<close>
  (\<open>validate_uncached\<close>), and no public method ever caches a table.
\<close>

theorem validate_with_data_raises:
  "fst (validate (AdoptionForm_init demo_client) demo_world) = Inl no_data_error
   \<and> fst (validate (set_dog_field ''dog_size'' (PStr ''Medium'') (AdoptionForm_init demo_client))
            demo_world)
       = Inl (AttributeError
                ([sq] @ ''FurSightClient'' @ [sq] @ '' object has no attribute ''
                   @ [sq] @ ''get_dropdown_values'' @ [sq]))
   \<and> fst (validate (set_dog_field ''dog_size'' (PStr ''Medium'') (AdoptionForm_init demo_client))
            demo_world)
       \<noteq> Inr True"
  by (simp add: validate_def AdoptionForm_init_def set_dog_field_def validate_field_uncached
      no_attribute_def)

section \<open>Removed client methods\<close>

text \<open>
  C9. Every call of a disabled-endpoint operation is rejected locally: batch prediction,
  dropdown values, adopter-letter generation and dog-profile generation on the client, and
  the form's \<^verbatim>\<open>generate_adopter_letter\<close>, \<^verbatim>\<open>generate_dog_profile\<close> and (when the table is not
  yet cached, as on every form the constructor builds) \<^verbatim>\<open>get_dropdown_values\<close>. Each raises
  the \<^verbatim>\<open>AttributeError\<close> that names the missing method, and the client, the form and the
  world come back as they were: nothing was dispatched, nothing slept, no marker was set.
\<close>

theorem disabled_operations_rejected:
  "client_predict_batch c w = (Inl (no_attribute ''predict_batch''), c, w)
   \<and> client_get_dropdown_values c w = (Inl (no_attribute ''get_dropdown_values''), c, w)
   \<and> client_generate_adopter_letter combined c w = (Inl (no_attribute ''generate_adopter_letter''), c, w)
   \<and> client_generate_dog_profile combined c w = (Inl (no_attribute ''generate_dog_profile''), c, w)
   \<and> (dropdown_values form = None \<longrightarrow>
        get_dropdown_values form w = (Inl (no_attribute ''get_dropdown_values''), form, w))
   \<and> generate_adopter_letter form w = (Inl (no_attribute ''generate_adopter_letter''), form, w)
   \<and> generate_dog_profile form w = (Inl (no_attribute ''generate_dog_profile''), form, w)"
  by (simp add: client_predict_batch_def client_get_dropdown_values_def
      client_generate_adopter_letter_def client_generate_dog_profile_def call_removed_def
      client_getattr_removed get_dropdown_values_def generate_adopter_letter_def
      generate_dog_profile_def)

theorem disabled_operations_rejected_witness:
  "get_dropdown_values (demo_form [] [] None) demo_world =
     (Inl (AttributeError ([sq] @ ''FurSightClient'' @ [sq] @ '' object has no attribute '' @ [sq] @ ''get_dropdown_values'' @ [sq])),
      demo_form [] [] None, demo_world)"
  using disabled_operations_rejected [of demo_client demo_world "[]" "demo_form [] [] None"]
  by (simp add: demo_form_def no_attribute_def)


section \<open>Merging the two partitions\<close>

lemma map_of_fold_update:
  "distinct (map fst b) \<Longrightarrow>
     map_of (fold (\<lambda>(k, v). AList.update k v) b a) = map_of a ++ map_of b"
proof (induction b arbitrary: a)
  case Nil
  show ?case by simp
next
  case (Cons x b)
  obtain k v where x: "x = (k, v)" by (cases x)
  from Cons.prems have k: "k \<notin> dom (map_of b)" and d: "distinct (map fst b)"
    by (auto simp: x dom_map_of_conv_image_fst)
  have "map_of (fold (\<lambda>(k, v). AList.update k v) (x # b) a)
          = map_of (AList.update k v a) ++ map_of b"
    using Cons.IH [OF d] by (simp add: x)
  also have "\<dots> = (map_of a ++ map_of b)(k \<mapsto> v)"
    using k by (simp add: update_conv' map_add_upd_left)
  also have "\<dots> = map_of a ++ map_of (x # b)"
    by (simp add: x)
  finally show ?case .
qed

lemma distinct_fold_update:
  "distinct (map fst a) \<Longrightarrow> distinct (map fst (fold (\<lambda>(k, v). AList.update k v) b a))"
proof (induction b arbitrary: a)
  case Nil
  then show ?case by simp
next
  case (Cons x b)
  then show ?case by (cases x) (simp add: distinct_update)
qed

lemma map_of_dict_merge:
  "distinct (map fst b) \<Longrightarrow> map_of (dict_merge a b) = map_of a ++ map_of b"
  by (simp add: dict_merge_def map_of_fold_update)

lemma distinct_dict_merge:
  "distinct (map fst a) \<Longrightarrow> distinct (map fst (dict_merge a b))"
  by (simp add: dict_merge_def distinct_fold_update)

lemma set_dict_merge_disjoint:
  assumes a: "distinct (map fst a)" and d: "distinct (map fst d)"
    and disj: "fst ` set a \<inter> fst ` set d = {}"
  shows "set (dict_merge a d) = set a \<union> set d"
proof (rule set_eqI)
  fix x :: "string \<times> pyval"
  obtain k v where x: "x = (k, v)" by (cases x)
  have "(k, v) \<in> set (dict_merge a d) \<longleftrightarrow> map_of (dict_merge a d) k = Some v"
    using distinct_dict_merge [OF a, of d] by simp
  also have "\<dots> \<longleftrightarrow> (map_of a ++ map_of d) k = Some v"
    by (simp add: map_of_dict_merge [OF d])
  also have "\<dots> \<longleftrightarrow> map_of a k = Some v \<or> map_of d k = Some v"
  proof (cases "map_of d k")
    case None
    then show ?thesis by (simp add: map_add_def)
  next
    case (Some u)
    then have "k \<in> fst ` set d" by (metis map_of_eq_None_iff option.distinct(1))
    with disj have "k \<notin> fst ` set a" by auto
    then have "map_of a k = None" by (simp add: map_of_eq_None_iff)
    with Some show ?thesis by (simp add: map_add_def)
  qed
  also have "\<dots> \<longleftrightarrow> (k, v) \<in> set a \<union> set d"
    using a d by simp
  finally show "x \<in> set (dict_merge a d) \<longleftrightarrow> x \<in> set a \<union> set d" by (simp add: x)
qed

text \<open>
  C6. For adopter and dog field maps (dicts, so with distinct keys) that have no key in
  common, the merged record that \<^verbatim>\<open>predict_single\<close> submits and \<^verbatim>\<open>to_dict\<close> returns has
  exactly the items of the two maps, and merging in the other order gives the same items
  and the same map. For a key present in both maps the merged record holds the dog value.
\<close>

theorem merge_order_and_collision:
  assumes "distinct (map fst a)" and "distinct (map fst d)"
  shows "prediction_data (AdopterDict a) (DogDict d) = dict_merge a d
    \<and> to_dict \<lparr>form_client = c, adopter_data = a, dog_data = d, dropdown_values = t,
         sample_data = s\<rparr> = dict_merge a d
    \<and> (fst ` set a \<inter> fst ` set d = {} \<longrightarrow>
         set (dict_merge a d) = set a \<union> set d
         \<and> set (dict_merge a d) = set (dict_merge d a)
         \<and> map_of (dict_merge a d) = map_of (dict_merge d a))
    \<and> (\<forall>k. k \<in> fst ` set a \<and> k \<in> fst ` set d \<longrightarrow>
         map_of (dict_merge a d) k = map_of d k)"
proof (intro conjI impI allI)
  show "prediction_data (AdopterDict a) (DogDict d) = dict_merge a d"
    by (simp add: prediction_data_def adopter_to_dict_def dog_to_dict_def)
  show "to_dict \<lparr>form_client = c, adopter_data = a, dog_data = d, dropdown_values = t,
         sample_data = s\<rparr> = dict_merge a d"
    by (simp add: to_dict_def)
next
  assume disj: "fst ` set a \<inter> fst ` set d = {}"
  then have disj': "fst ` set d \<inter> fst ` set a = {}" by auto
  show ad: "set (dict_merge a d) = set a \<union> set d"
    using assms disj by (rule set_dict_merge_disjoint)
  have da: "set (dict_merge d a) = set d \<union> set a"
    using assms(2,1) disj' by (rule set_dict_merge_disjoint)
  show "set (dict_merge a d) = set (dict_merge d a)"
    using ad da by auto
  show "map_of (dict_merge a d) = map_of (dict_merge d a)"
  proof (rule map_of_inject_set [THEN iffD2])
    show "distinct (map fst (dict_merge a d))" using assms(1) by (rule distinct_dict_merge)
    show "distinct (map fst (dict_merge d a))" using assms(2) by (rule distinct_dict_merge)
    show "set (dict_merge a d) = set (dict_merge d a)" using ad da by auto
  qed
next
  fix k
  assume "k \<in> fst ` set a \<and> k \<in> fst ` set d"
  then have "map_of d k \<noteq> None" by (simp add: map_of_eq_None_iff)
  then show "map_of (dict_merge a d) k = map_of d k"
    by (auto simp: map_of_dict_merge [OF assms(2)] map_add_def)
qed

theorem merge_order_and_collision_witness:
  "set (dict_merge [(''adopter_has_kids'', PStr ''No'')] [(''dog_size'', PStr ''Small'')])
     = set (dict_merge [(''dog_size'', PStr ''Small'')] [(''adopter_has_kids'', PStr ''No'')])
   \<and> map_of (dict_merge [(''size'', PStr ''Large''), (''adopter_has_kids'', PStr ''No'')]
        [(''size'', PStr ''Small'')]) ''size'' = Some (PStr ''Small'')"
proof -
  have "set (dict_merge [(''adopter_has_kids'', PStr ''No'')] [(''dog_size'', PStr ''Small'')])
     = set (dict_merge [(''dog_size'', PStr ''Small'')] [(''adopter_has_kids'', PStr ''No'')])"
    using merge_order_and_collision
      [of "[(''adopter_has_kids'', PStr ''No'')]" "[(''dog_size'', PStr ''Small'')]"
          demo_client None None]
    by (auto simp: dict_merge_def)
  moreover have "map_of (dict_merge [(''size'', PStr ''Large''), (''adopter_has_kids'', PStr ''No'')]
        [(''size'', PStr ''Small'')]) ''size'' = Some (PStr ''Small'')"
    using merge_order_and_collision
      [of "[(''size'', PStr ''Large''), (''adopter_has_kids'', PStr ''No'')]"
          "[(''size'', PStr ''Small'')]" demo_client None None]
    by simp
  ultimately show ?thesis by simp
qed

section \<open>The first violation\<close>

lemma validate_field_cached:
  "dropdown_values form = Some table \<Longrightarrow>
     validate_field form k v w =
       (case table k of
          Some allowed \<Rightarrow>
            if allowed \<noteq> [] \<and> py_str v \<notin> set allowed
            then (Inl (field_error k allowed v), form, w) else (Inr True, form, w)
        | None \<Rightarrow> (Inr True, form, w))"
  by (simp add: validate_field_def get_dropdown_values_cached split: option.split)

lemma validate_items_no_violation:
  "dropdown_values form = Some table \<Longrightarrow> list_all (\<lambda>x. \<not> field_violation table x) xs
     \<Longrightarrow> validate_items form xs w = (Inr (), form, w)"
proof (induction xs)
  case Nil
  show ?case by simp
next
  case (Cons x xs)
  obtain k v where x: "x = (k, v)" by (cases x)
  from Cons show ?case
    by (auto simp: x validate_field_cached field_violation_def split: option.splits)
qed

lemma validate_items_append:
  "validate_items form (xs @ ys) w =
     (case validate_items form xs w of
        (Inl e, form', w') \<Rightarrow> (Inl e, form', w')
      | (Inr u, form', w') \<Rightarrow> validate_items form' ys w')"
proof (induction xs)
  case Nil
  show ?case by simp
next
  case (Cons x xs)
  obtain k v where x: "x = (k, v)" by (cases x)
  obtain res where r: "validate_field form k v w = (res, form, w)"
    using validate_field_frame [of form k v w] by (cases "validate_field form k v w") auto
  show ?case using Cons.IH by (simp add: x r split: sum.split)
qed

lemma validate_items_first_violation:
  assumes "dropdown_values form = Some table"
    and "list_all (\<lambda>x. \<not> field_violation table x) pre"
    and "v \<noteq> PNone" and "table k = Some allowed" and "allowed \<noteq> []"
    and "py_str v \<notin> set allowed"
  shows "validate_items form (pre @ (k, v) # post) w = (Inl (field_error k allowed v), form, w)"
  using assms
  by (simp add: validate_items_append validate_items_no_violation validate_field_cached)

lemma validate_as_one_loop:
  "validate form w =
     (case validate_items form (adopter_data form @ dog_data form) w of
        (Inl e, form', w') \<Rightarrow> (Inl e, form', w')
      | (Inr u, form', w') \<Rightarrow>
          if adopter_data form' = [] \<and> dog_data form' = []
          then (Inl no_data_error, form', w') else (Inr True, form', w'))"
proof -
  obtain r1 where r1: "validate_items form (adopter_data form) w = (r1, form, w)"
    using validate_items_frame [of form "adopter_data form" w]
    by (cases "validate_items form (adopter_data form) w") auto
  obtain r2 where r2: "validate_items form (dog_data form) w = (r2, form, w)"
    using validate_items_frame [of form "dog_data form" w]
    by (cases "validate_items form (dog_data form) w") auto
  show ?thesis
    by (simp add: validate_def validate_items_append r1 r2 split: sum.split)
qed

text \<open>
  C8, as amended. With the allowed-values table cached on the form: a field whose name is
  not in the table passes, and so does one whose list of permitted values is empty. When
  the first field in iteration order (adopter partition, then dog partition) that is not
  \<^verbatim>\<open>None\<close>, has a non-empty list in the table and whose text \<^verbatim>\<open>str(value)\<close> is not in that
  list is \<open>(k, v)\<close>, then \<^verbatim>\<open>validate()\<close> raises the validation error for that field alone,
  whatever follows it: the message names the field, shows the first five permitted values
  followed by \<^verbatim>\<open>...\<close> exactly when there are more than five, and the received value.
\<close>

theorem validate_first_violation:
  assumes "dropdown_values form = Some table"
  shows "(table k = None \<longrightarrow> validate_field form k v w = (Inr True, form, w))
    \<and> (table k = Some [] \<longrightarrow> validate_field form k v w = (Inr True, form, w))
    \<and> (\<forall>pre post allowed.
          adopter_data form @ dog_data form = pre @ (k, v) # post
          \<and> list_all (\<lambda>x. \<not> field_violation table x) pre
          \<and> v \<noteq> PNone \<and> table k = Some allowed \<and> allowed \<noteq> []
          \<and> py_str v \<notin> set allowed
          \<longrightarrow> fst (validate form w) =
                Inl (ValidationError
                  (''Field '' @ [sq] @ k @ [sq] @ '' must be one of: ''
                     @ py_repr_list (take 5 allowed)
                     @ (if length allowed > 5 then ''...'' else [])
                     @ ''. Received: '' @ [sq] @ py_str v @ [sq])))"
proof (intro conjI impI allI)
  assume "table k = None"
  then show "validate_field form k v w = (Inr True, form, w)"
    using assms by (simp add: validate_field_cached)
next
  assume "table k = Some []"
  then show "validate_field form k v w = (Inr True, form, w)"
    using assms by (simp add: validate_field_cached)
next
  fix pre post allowed
  assume h: "adopter_data form @ dog_data form = pre @ (k, v) # post
          \<and> list_all (\<lambda>x. \<not> field_violation table x) pre
          \<and> v \<noteq> PNone \<and> table k = Some allowed \<and> allowed \<noteq> []
          \<and> py_str v \<notin> set allowed"
  then have "validate_items form (adopter_data form @ dog_data form) w
               = (Inl (field_error k allowed v), form, w)"
    using assms by (simp add: validate_items_first_violation)
  then show "fst (validate form w) =
                Inl (ValidationError
                  (''Field '' @ [sq] @ k @ [sq] @ '' must be one of: ''
                     @ py_repr_list (take 5 allowed)
                     @ (if length allowed > 5 then ''...'' else [])
                     @ ''. Received: '' @ [sq] @ py_str v @ [sq]))"
    by (simp add: validate_as_one_loop field_error_def)
qed

theorem validate_first_violation_witness:
  "validate_field (demo_form [] [(''dog_breed'', PStr ''Pug'')] (Some size_table)) ''dog_breed''
      (PStr ''Pug'') demo_world
     = (Inr True, demo_form [] [(''dog_breed'', PStr ''Pug'')] (Some size_table), demo_world)
   \<and> fst (validate (demo_form [(''adopter_has_kids'', PStr ''No'')]
             [(''dog_size'', PStr ''Huge''), (''dog_age'', PStr ''Old'')] (Some size_table))
          demo_world)
     = Inl (ValidationError
         (''Field '' @ [sq] @ ''dog_size'' @ [sq] @ '' must be one of: [''
            @ [sq] @ ''Small'' @ [sq] @ '', '' @ [sq] @ ''Medium'' @ [sq] @ '', ''
            @ [sq] @ ''Large'' @ [sq] @ '']. Received: '' @ [sq] @ ''Huge'' @ [sq]))
   \<and> fst (validate (demo_form [] [(''dog_age'', PInt 3)] (Some long_table)) demo_world)
     = Inl (ValidationError
         (''Field '' @ [sq] @ ''dog_age'' @ [sq] @ '' must be one of: [''
            @ [sq] @ ''Puppy'' @ [sq] @ '', '' @ [sq] @ ''Young'' @ [sq] @ '', ''
            @ [sq] @ ''Adult'' @ [sq] @ '', '' @ [sq] @ ''Mature'' @ [sq] @ '', ''
            @ [sq] @ ''Senior'' @ [sq] @ '']'' @ ''...'' @ ''. Received: '' @ [sq] @ ''3'' @ [sq]))"
proof -
  have 1: "validate_field (demo_form [] [(''dog_breed'', PStr ''Pug'')] (Some size_table)) ''dog_breed''
      (PStr ''Pug'') demo_world
     = (Inr True, demo_form [] [(''dog_breed'', PStr ''Pug'')] (Some size_table), demo_world)"
    using validate_first_violation
      [of "demo_form [] [(''dog_breed'', PStr ''Pug'')] (Some size_table)" size_table
          "''dog_breed''" "PStr ''Pug''" demo_world]
    by (simp add: demo_form_def size_table_def)
  have 2: "fst (validate (demo_form [(''adopter_has_kids'', PStr ''No'')]
             [(''dog_size'', PStr ''Huge''), (''dog_age'', PStr ''Old'')] (Some size_table))
          demo_world)
     = Inl (ValidationError
         (''Field '' @ [sq] @ ''dog_size'' @ [sq] @ '' must be one of: [''
            @ [sq] @ ''Small'' @ [sq] @ '', '' @ [sq] @ ''Medium'' @ [sq] @ '', ''
            @ [sq] @ ''Large'' @ [sq] @ '']. Received: '' @ [sq] @ ''Huge'' @ [sq]))"
    using validate_first_violation
      [of "demo_form [(''adopter_has_kids'', PStr ''No'')]
             [(''dog_size'', PStr ''Huge''), (''dog_age'', PStr ''Old'')] (Some size_table)"
          size_table "''dog_size''" "PStr ''Huge''" demo_world,
       THEN conjunct2, THEN conjunct2, rule_format,
       of "[(''adopter_has_kids'', PStr ''No'')]" "[(''dog_age'', PStr ''Old'')]"
          "[''Small'', ''Medium'', ''Large'']"]
    by (simp add: demo_form_def size_table_def field_violation_def py_str_def
        py_repr_list_def py_repr_str_def repr_quote_def repr_char_def sq_def bslash_def
        isprintable_def Let_def)
  have 3: "fst (validate (demo_form [] [(''dog_age'', PInt 3)] (Some long_table)) demo_world)
     = Inl (ValidationError
         (''Field '' @ [sq] @ ''dog_age'' @ [sq] @ '' must be one of: [''
            @ [sq] @ ''Puppy'' @ [sq] @ '', '' @ [sq] @ ''Young'' @ [sq] @ '', ''
            @ [sq] @ ''Adult'' @ [sq] @ '', '' @ [sq] @ ''Mature'' @ [sq] @ '', ''
            @ [sq] @ ''Senior'' @ [sq] @ '']'' @ ''...'' @ ''. Received: '' @ [sq] @ ''3'' @ [sq]))"
    using validate_first_violation
      [of "demo_form [] [(''dog_age'', PInt 3)] (Some long_table)"
          long_table "''dog_age''" "PInt 3" demo_world,
       THEN conjunct2, THEN conjunct2, rule_format,
       of "[]" "[]" "[''Puppy'', ''Young'', ''Adult'', ''Mature'', ''Senior'', ''Geriatric'']"]
    by (simp add: demo_form_def long_table_def field_violation_def py_str_def str_int_def
        str_nat.simps py_repr_list_def py_repr_str_def repr_quote_def repr_char_def sq_def
        bslash_def isprintable_def Let_def)
  from 1 2 3 show ?thesis by simp
qed

text \<open>
  The claim as stated fails where the table lists a field with an empty list of permitted
  values: no value is among them, yet the guard \<^verbatim>\<open>if allowed_values and ...\<close> lets every
  value pass.
\<close>

theorem empty_permitted_list_counterexample:
  "fst (validate (demo_form [] [(''dog_size'', PStr ''Huge'')] (Some [''dog_size'' \<mapsto> []]))
          demo_world) = Inr True"
  by (simp add: validate_def demo_form_def validate_field_def get_dropdown_values_def)


section \<open>One iteration of the retry loop\<close>

lemma attempts_exhausted:
  "\<not> int attempt < max_retries c \<Longrightarrow>
     attempts c net rq attempt w = (Inl (FurSightError ''Max retries exceeded''), w)"
  by (simp add: attempts.simps)

lemma attempts_success:
  "int attempt < max_retries c \<Longrightarrow> net attempt = Response r \<Longrightarrow> status_code r \<noteq> 429 \<Longrightarrow>
     ok r \<Longrightarrow> attempts c net rq attempt w = (Inr r, dispatch rq w)"
  by (simp add: attempts.simps)

lemma attempts_http_error:
  "int attempt < max_retries c \<Longrightarrow> net attempt = Response r \<Longrightarrow> status_code r \<noteq> 429 \<Longrightarrow>
     \<not> ok r \<Longrightarrow> attempts c net rq attempt w = (Inl (http_error r), dispatch rq w)"
  by (simp add: attempts.simps)

lemma attempts_429_unreadable:
  "int attempt < max_retries c \<Longrightarrow> net attempt = Response r \<Longrightarrow> status_code r = 429 \<Longrightarrow>
     int_retry_after r = Inl e \<Longrightarrow> attempts c net rq attempt w = (Inl e, dispatch rq w)"
  by (simp add: attempts.simps)



lemma attempts_429_negative:
  "int attempt < max_retries c - 1 \<Longrightarrow> net attempt = Response r \<Longrightarrow> status_code r = 429 \<Longrightarrow>
     int_retry_after r = Inr n \<Longrightarrow> n < 0 \<Longrightarrow> - max_sleep_seconds \<le> n \<Longrightarrow>
     attempts c net rq attempt w =
       (Inl (ValueError ''sleep length must be non-negative''), dispatch rq w)"
  by (simp add: attempts.simps [of c net rq attempt w] time_sleep_seconds_def time_sleep_def
      dispatch_def max_sleep_seconds_def)

lemma attempts_429_overflow:
  "int attempt < max_retries c - 1 \<Longrightarrow> net attempt = Response r \<Longrightarrow> status_code r = 429 \<Longrightarrow>
     int_retry_after r = Inr n \<Longrightarrow> max_sleep_seconds < n \<Longrightarrow>
     attempts c net rq attempt w =
       (Inl (OverflowError ''timestamp too large to convert to C _PyTime_t''), dispatch rq w)"
  by (simp add: attempts.simps [of c net rq attempt w] time_sleep_seconds_def)

lemma attempts_transport_final:
  "int attempt = max_retries c - 1 \<Longrightarrow> transport_failure (net attempt) \<Longrightarrow>
     attempts c net rq attempt w = (Inl (terminal_error c (net attempt)), dispatch rq w)"
  by (simp add: attempts.simps [of c net rq attempt w] transport_failure_def terminal_error_def
      split: outcome.splits)

lemma attempts_transport_retry:
  "int attempt < max_retries c - 1 \<Longrightarrow> transport_failure (net attempt) \<Longrightarrow>
     attempts c net rq attempt w =
       attempts c net rq (Suc attempt)
         (w\<lparr>now := now w + 2 ^ attempt, trace := trace w @ [Dispatched rq, Slept (2 ^ attempt)]\<rparr>)"
  by (simp add: attempts.simps [of c net rq attempt w] transport_failure_def time_sleep_def
      dispatch_def split: outcome.splits)

section \<open>What the loop adds to the trace\<close>

lemma marker_updates_append [simp]:
  "marker_updates (xs @ ys) = marker_updates xs + marker_updates ys"
  by (simp add: marker_updates_def)

lemma dispatches_append [simp]: "dispatches (xs @ ys) = dispatches xs + dispatches ys"
  by (simp add: dispatches_def)

lemma marker_updates_simps [simp]:
  "marker_updates [] = 0" "marker_updates (MarkerSet t # es) = Suc (marker_updates es)"
  "marker_updates (Slept d # es) = marker_updates es"
  "marker_updates (Dispatched rq # es) = marker_updates es"
  by (simp_all add: marker_updates_def)

lemma dispatches_simps [simp]:
  "dispatches [] = 0" "dispatches (MarkerSet t # es) = dispatches es"
  "dispatches (Slept d # es) = dispatches es"
  "dispatches (Dispatched rq # es) = Suc (dispatches es)"
  by (simp_all add: dispatches_def)

lemma attempts_frame:
  "marker_updates (trace (snd (attempts c net rq attempt w))) = marker_updates (trace w)
   \<and> dispatches (trace (snd (attempts c net rq attempt w)))
        \<le> dispatches (trace w) + nat (max_retries c - int attempt)
   \<and> (\<forall>rq'. Dispatched rq' \<in> set (trace (snd (attempts c net rq attempt w)))
          \<longrightarrow> Dispatched rq' \<in> set (trace w) \<or> rq' = rq)"
proof (induction c net rq attempt w rule: attempts.induct)
  case (1 c net rq attempt w)
  note eq = attempts.simps [of c net rq attempt w]
  show ?case
  proof (cases "int attempt < max_retries c")
    case False
    then show ?thesis by (simp add: eq)
  next
    case True
    then have pos: "Suc 0 \<le> nat (max_retries c - int attempt)"
      and step: "Suc (nat (max_retries c - int (Suc attempt))) \<le> nat (max_retries c - int attempt)"
      by simp_all
    show ?thesis
    proof (cases "net attempt")
      case (Response r)
      show ?thesis
      proof (cases "status_code r = 429")
        case False
        with True Response show ?thesis using pos by (simp add: eq dispatch_def)
      next
        case s: True
        show ?thesis
        proof (cases "int_retry_after r")
          case (Inl e)
          with True Response s show ?thesis using pos by (simp add: eq dispatch_def)
        next
          case (Inr n)
          show ?thesis
          proof (cases "int attempt = max_retries c - 1")
            case f: True
            with True Response s Inr show ?thesis using pos by (simp add: eq dispatch_def)
          next
            case f: False
            show ?thesis
            proof (cases "time_sleep_seconds n (dispatch rq w)")
              case (Inl e)
              with True Response s Inr f show ?thesis using pos by (simp add: eq dispatch_def)
            next
              case w': (Inr w')
              have tr: "trace w' = trace w @ [Dispatched rq, Slept (of_int n)]"
                using w'
                by (auto simp: time_sleep_seconds_def time_sleep_def dispatch_def
                    split: if_splits)
              have ih: "marker_updates (trace (snd (attempts c net rq (Suc attempt) w'))) = marker_updates (trace w')
                 \<and> dispatches (trace (snd (attempts c net rq (Suc attempt) w')))
                      \<le> dispatches (trace w') + nat (max_retries c - int (Suc attempt))
                 \<and> (\<forall>rq'. Dispatched rq' \<in> set (trace (snd (attempts c net rq (Suc attempt) w')))
                      \<longrightarrow> Dispatched rq' \<in> set (trace w') \<or> rq' = rq)"
                using "1.IH"(1) True Response s Inr f w' by simp
              have "attempts c net rq attempt w = attempts c net rq (Suc attempt) w'"
                using True Response s Inr f w' by (simp add: eq)
              with ih tr step show ?thesis by auto
            qed
          qed
        qed
      qed
    next
      case Timeout
      show ?thesis
      proof (cases "int attempt = max_retries c - 1")
        case f: True
        with True Timeout show ?thesis using pos by (simp add: eq dispatch_def)
      next
        case f: False
        obtain w' where w': "time_sleep (2 ^ attempt) (dispatch rq w) = Inr w'"
          and tr: "trace w' = trace w @ [Dispatched rq, Slept (2 ^ attempt)]"
          by (simp add: time_sleep_def dispatch_def)
        have ih: "marker_updates (trace (snd (attempts c net rq (Suc attempt) w'))) = marker_updates (trace w')
                 \<and> dispatches (trace (snd (attempts c net rq (Suc attempt) w')))
                      \<le> dispatches (trace w') + nat (max_retries c - int (Suc attempt))
                 \<and> (\<forall>rq'. Dispatched rq' \<in> set (trace (snd (attempts c net rq (Suc attempt) w')))
                      \<longrightarrow> Dispatched rq' \<in> set (trace w') \<or> rq' = rq)"
          using "1.IH"(2) True Timeout f w' by simp
        have "attempts c net rq attempt w = attempts c net rq (Suc attempt) w'"
          using True Timeout f w' by (simp add: eq)
        with ih tr step show ?thesis by auto
      qed
    next
      case (RequestException e)
      show ?thesis
      proof (cases "int attempt = max_retries c - 1")
        case f: True
        with True RequestException show ?thesis using pos by (simp add: eq dispatch_def)
      next
        case f: False
        obtain w' where w': "time_sleep (2 ^ attempt) (dispatch rq w) = Inr w'"
          and tr: "trace w' = trace w @ [Dispatched rq, Slept (2 ^ attempt)]"
          by (simp add: time_sleep_def dispatch_def)
        have ih: "marker_updates (trace (snd (attempts c net rq (Suc attempt) w'))) = marker_updates (trace w')
                 \<and> dispatches (trace (snd (attempts c net rq (Suc attempt) w')))
                      \<le> dispatches (trace w') + nat (max_retries c - int (Suc attempt))
                 \<and> (\<forall>rq'. Dispatched rq' \<in> set (trace (snd (attempts c net rq (Suc attempt) w')))
                      \<longrightarrow> Dispatched rq' \<in> set (trace w') \<or> rq' = rq)"
          using "1.IH"(3) True RequestException f w' by simp
        have "attempts c net rq attempt w = attempts c net rq (Suc attempt) w'"
          using True RequestException f w' by (simp add: eq)
        with ih tr step show ?thesis by auto
      qed
    qed
  qed
qed


section \<open>The pacing marker\<close>

lemma wait_for_rate_limit_trace:
  "marker_updates (trace (snd (wait_for_rate_limit c w))) = marker_updates (trace w) + 1"
  "dispatches (trace (snd (wait_for_rate_limit c w))) = dispatches (trace w)"
  "max_retries (fst (wait_for_rate_limit c w)) = max_retries c"
  "timeout (fst (wait_for_rate_limit c w)) = timeout c"
  by (simp_all add: wait_for_rate_limit_def time_sleep_def Let_def)

lemma make_request_unfold:
  "make_request c net rq w =
     (fst (attempts (fst (wait_for_rate_limit c w)) net rq 0 (snd (wait_for_rate_limit c w))),
      fst (wait_for_rate_limit c w),
      snd (attempts (fst (wait_for_rate_limit c w)) net rq 0 (snd (wait_for_rate_limit c w))))"
  by (simp add: make_request_def split_beta)

text \<open>
  C3, as amended. One logical call writes the last-request-time marker exactly once, in
  \<^verbatim>\<open>_wait_for_rate_limit\<close> before the retry loop, whatever the attempts meet and however many
  of them are dispatched (none when \<^verbatim>\<open>max_retries\<close> is not positive, at most
  \<^verbatim>\<open>max_retries\<close> otherwise); the retry loop itself never writes it.
\<close>

theorem marker_once_per_call:
  "marker_updates (trace (snd (snd (make_request c net rq w)))) = marker_updates (trace w) + 1
   \<and> dispatches (trace (snd (snd (make_request c net rq w))))
        \<le> dispatches (trace w) + nat (max_retries c)
   \<and> marker_updates (trace (snd (attempts c net rq attempt w))) = marker_updates (trace w)"
  using attempts_frame [of "fst (wait_for_rate_limit c w)" net rq 0 "snd (wait_for_rate_limit c w)"]
    attempts_frame [of c net rq attempt w]
  by (simp add: make_request_unfold wait_for_rate_limit_trace)

text \<open>
  The claim as stated fails on a call whose first attempt times out and whose second
  succeeds: two attempts are dispatched, the marker is written once.
\<close>

theorem marker_per_attempt_counterexample:
  "dispatches (trace (snd (snd (make_request demo_client
       (\<lambda>n. if n = 0 then Timeout else Response (demo_response 200)) demo_request demo_world)))) = 2
   \<and> marker_updates (trace (snd (snd (make_request demo_client
       (\<lambda>n. if n = 0 then Timeout else Response (demo_response 200)) demo_request demo_world)))) = 1"
  by (simp add: make_request_def wait_for_rate_limit_def demo_client_def demo_world_def
      demo_response_def attempts.simps time_sleep_def dispatch_def ok_def Let_def)

section \<open>Status classification\<close>

text \<open>
  C1, as amended. A response whose status is in 400..599 and is not 429 makes the executor
  raise at the attempt that received it: the attempt's own dispatch is the last effect, with
  no sleep and no further attempt (for the first attempt of a call: one dispatch in all).
  Status 400 raises \<^verbatim>\<open>ValidationError\<close> with the error message, and every status other than
  400, 401 and 402 raises \<^verbatim>\<open>APIError\<close> with the error message (the \<^verbatim>\<open>detail\<close> of a JSON object
  body, else \<^verbatim>\<open>HTTP <status>\<close>, followed by the response text when the body is no JSON
  object). Which error 401 and 402 raise is not part of the statement. A response with any
  other status except 429 (so also 1xx and 3xx) is returned, not raised.
\<close>

theorem status_classification:
  assumes "int attempt < max_retries c" and "net attempt = Response r"
    and "status_code r \<noteq> 429"
  shows "(400 \<le> status_code r \<and> status_code r < 600 \<longrightarrow>
            (\<exists>e. attempts c net rq attempt w = (Inl e, dispatch rq w)
               \<and> (attempt = 0 \<longrightarrow>
                     fst (make_request c net rq w) = Inl e
                     \<and> dispatches (trace (snd (snd (make_request c net rq w))))
                         = dispatches (trace w) + 1)
               \<and> (status_code r = 400 \<longrightarrow> e = ValidationError (error_message r))
               \<and> (status_code r \<noteq> 400 \<and> status_code r \<noteq> 401 \<and> status_code r \<noteq> 402
                     \<longrightarrow> e = APIError (error_message r) None)))
       \<and> (\<not> (400 \<le> status_code r \<and> status_code r < 600) \<longrightarrow>
            attempts c net rq attempt w = (Inr r, dispatch rq w))"
proof (intro conjI impI)
  assume range: "400 \<le> status_code r \<and> status_code r < 600"
  then have nok: "\<not> ok r" by (simp add: ok_def)
  have a: "attempts c net rq attempt w = (Inl (http_error r), dispatch rq w)"
    using assms nok by (rule attempts_http_error)
  have b: "attempt = 0 \<longrightarrow>
             fst (make_request c net rq w) = Inl (http_error r)
             \<and> dispatches (trace (snd (snd (make_request c net rq w)))) = dispatches (trace w) + 1"
  proof
    assume z: "attempt = 0"
    have "attempts (fst (wait_for_rate_limit c w)) net rq 0 (snd (wait_for_rate_limit c w))
            = (Inl (http_error r), dispatch rq (snd (wait_for_rate_limit c w)))"
      using assms nok z by (intro attempts_http_error) (simp_all add: wait_for_rate_limit_trace)
    then show "fst (make_request c net rq w) = Inl (http_error r)
             \<and> dispatches (trace (snd (snd (make_request c net rq w)))) = dispatches (trace w) + 1"
      by (simp add: make_request_unfold dispatch_def wait_for_rate_limit_trace)
  qed
  show "\<exists>e. attempts c net rq attempt w = (Inl e, dispatch rq w)
               \<and> (attempt = 0 \<longrightarrow>
                     fst (make_request c net rq w) = Inl e
                     \<and> dispatches (trace (snd (snd (make_request c net rq w))))
                         = dispatches (trace w) + 1)
               \<and> (status_code r = 400 \<longrightarrow> e = ValidationError (error_message r))
               \<and> (status_code r \<noteq> 400 \<and> status_code r \<noteq> 401 \<and> status_code r \<noteq> 402
                     \<longrightarrow> e = APIError (error_message r) None)"
    using a b by (intro exI [of _ "http_error r"]) (simp add: http_error_def)
next
  assume "\<not> (400 \<le> status_code r \<and> status_code r < 600)"
  then have "ok r" by (simp add: ok_def)
  with assms show "attempts c net rq attempt w = (Inr r, dispatch rq w)"
    by (intro attempts_success)
qed

theorem status_classification_witness:
  "attempts demo_client (\<lambda>n. if n = 0 then Timeout else Response (demo_response 503))
      demo_request 1 demo_world
     = (Inl (APIError ''HTTP 503: no'' None), dispatch demo_request demo_world)
   \<and> fst (make_request demo_client (\<lambda>n. Response (demo_response 400)) demo_request demo_world)
     = Inl (ValidationError ''HTTP 400: no'')
   \<and> attempts demo_client (\<lambda>n. Response (demo_response 200)) demo_request 0 demo_world
     = (Inr (demo_response 200), dispatch demo_request demo_world)"
proof -
  have 1: "attempts demo_client (\<lambda>n. if n = 0 then Timeout else Response (demo_response 503))
      demo_request 1 demo_world
     = (Inl (APIError ''HTTP 503: no'' None), dispatch demo_request demo_world)"
    using status_classification [of 1 demo_client
        "\<lambda>n. if n = 0 then Timeout else Response (demo_response 503)" "demo_response 503"
        demo_request demo_world]
    by (auto simp: demo_client_def demo_response_def error_message_def str_int_def
        str_nat.simps)
  have 2: "fst (make_request demo_client (\<lambda>n. Response (demo_response 400)) demo_request demo_world)
     = Inl (ValidationError ''HTTP 400: no'')"
    using status_classification [of 0 demo_client
        "\<lambda>n. Response (demo_response 400)" "demo_response 400" demo_request demo_world]
    by (auto simp: demo_client_def demo_response_def error_message_def str_int_def
        str_nat.simps)
  have 3: "attempts demo_client (\<lambda>n. Response (demo_response 200)) demo_request 0 demo_world
     = (Inr (demo_response 200), dispatch demo_request demo_world)"
    using status_classification [of 0 demo_client
        "\<lambda>n. Response (demo_response 200)" "demo_response 200" demo_request demo_world]
    by (auto simp: demo_client_def demo_response_def)
  from 1 2 3 show ?thesis by simp
qed

text \<open>
  The claim as stated fails at 401 and at 402, where the executor raises a plain
  \<^verbatim>\<open>APIError\<close> (with no status code) and not \<^verbatim>\<open>AuthenticationError\<close> or
  \<^verbatim>\<open>InsufficientCreditsError\<close>, and at 304, a non-2xx status that \<^verbatim>\<open>response.ok\<close> accepts, so
  the response is returned.
\<close>

theorem status_classification_counterexample:
  "fst (make_request demo_client (\<lambda>n. Response (demo_response 401)) demo_request demo_world)
     = Inl (APIError ''Invalid API key'' None)
   \<and> fst (make_request demo_client (\<lambda>n. Response (demo_response 402)) demo_request demo_world)
     = Inl (APIError ''Insufficient credits'' None)
   \<and> class_of (APIError ''Invalid API key'' None) \<noteq> CAuthenticationError
   \<and> class_of (APIError ''Insufficient credits'' None) \<noteq> CInsufficientCreditsError
   \<and> fst (make_request demo_client (\<lambda>n. Response (demo_response 304)) demo_request demo_world)
     = Inr (demo_response 304)"
  by (simp add: make_request_def wait_for_rate_limit_def demo_client_def demo_world_def
      demo_response_def attempts.simps time_sleep_def dispatch_def ok_def http_error_def Let_def)


section \<open>Backoff on transport failures\<close>

lemma upt_split_first: "a < n \<Longrightarrow> [a..<n] = a # [Suc a..<n]"
  by (simp add: upt_conv_Cons)

lemma attempts_all_transport:
  assumes "\<forall>i. int i < max_retries c \<longrightarrow> transport_failure (net i)"
  shows "int attempt < max_retries c \<Longrightarrow>
     fst (attempts c net rq attempt w)
       = Inl (terminal_error c (net (nat (max_retries c) - 1)))
     \<and> trace (snd (attempts c net rq attempt w))
       = trace w @ concat (map (\<lambda>i. [Dispatched rq, Slept (2 ^ i)])
                             [attempt..<nat (max_retries c) - 1])
           @ [Dispatched rq]"
proof (induction "nat (max_retries c) - 1 - attempt" arbitrary: attempt w)
  case 0
  then have last: "int attempt = max_retries c - 1" by linarith
  then have n: "nat (max_retries c) - Suc 0 = attempt" by linarith
  have tf: "transport_failure (net attempt)" using assms "0.prems" by simp
  show ?case
    using attempts_transport_final [of attempt c net rq w] last tf by (simp add: n dispatch_def)
next
  case (Suc k)
  then have nonfinal: "int attempt < max_retries c - 1" by linarith
  then have "attempt < nat (max_retries c) - Suc 0" by linarith
  then have lt: "[attempt..<nat (max_retries c) - Suc 0]
                   = attempt # [Suc attempt..<nat (max_retries c) - Suc 0]"
    by (rule upt_split_first)
  have tf: "transport_failure (net attempt)" using assms Suc.prems by simp
  have k: "k = nat (max_retries c) - 1 - Suc attempt" using Suc.hyps(2) by linarith
  have next_ok: "int (Suc attempt) < max_retries c" using nonfinal by linarith
  show ?case
    using Suc.hyps(1) [OF k next_ok,
        of "w\<lparr>now := now w + 2 ^ attempt, trace := trace w @ [Dispatched rq, Slept (2 ^ attempt)]\<rparr>"]
    using attempts_transport_retry [of attempt c net rq w] nonfinal tf
    by (simp add: lt)
qed

text \<open>
  C5. On an attempt that is not the last and fails with a timeout or another transport
  error, the executor dispatches, sleeps \<open>2 ^ attempt\<close> seconds (attempt counted from 0) and
  goes on to the next attempt. No call dispatches more than \<^verbatim>\<open>max_retries\<close> attempts. When
  every attempt fails that way, exactly \<^verbatim>\<open>max_retries\<close> attempts are dispatched, with
  sleeps of 1, 2, 4, ... seconds between them and none after the last, and the call raises
  \<^verbatim>\<open>FurSightError\<close> with a message that reports the last failure: an error of class
  \<^verbatim>\<open>FurSightError\<close> itself, which \<^verbatim>\<open>except FurSightError\<close> catches and which none of the
  handlers for the other kinds (\<^verbatim>\<open>ValidationError\<close>, \<^verbatim>\<open>APIError\<close>, \<^verbatim>\<open>RateLimitError\<close>) catches.
\<close>

theorem transport_backoff:
  "(int attempt < max_retries c - 1 \<and> transport_failure (net attempt) \<longrightarrow>
      attempts c net rq attempt w =
        attempts c net rq (Suc attempt)
          (w\<lparr>now := now w + 2 ^ attempt,
             trace := trace w @ [Dispatched rq, Slept (2 ^ attempt)]\<rparr>))
   \<and> dispatches (trace (snd (snd (make_request c net rq w))))
        \<le> dispatches (trace w) + nat (max_retries c)
   \<and> (1 \<le> max_retries c \<and> (\<forall>i. int i < max_retries c \<longrightarrow> transport_failure (net i)) \<longrightarrow>
        (net (nat (max_retries c) - 1) = Timeout \<longrightarrow>
           fst (make_request c net rq w)
             = Inl (FurSightError
                      (''Request timeout after '' @ str_int (timeout c) @ '' seconds'')))
        \<and> (\<forall>e. net (nat (max_retries c) - 1) = RequestException e \<longrightarrow>
              fst (make_request c net rq w) = Inl (FurSightError (''Request failed: '' @ e)))
        \<and> trace (snd (snd (make_request c net rq w)))
          = trace (snd (wait_for_rate_limit c w))
              @ concat (map (\<lambda>i. [Dispatched rq, Slept (2 ^ i)]) [0..<nat (max_retries c) - 1])
              @ [Dispatched rq]
        \<and> dispatches (trace (snd (snd (make_request c net rq w))))
          = dispatches (trace w) + nat (max_retries c)
        \<and> (\<exists>m. fst (make_request c net rq w) = Inl (FurSightError m))
        \<and> (\<forall>e. fst (make_request c net rq w) = Inl e \<longrightarrow>
              class_of e = CFurSightError \<and> caught_by e CFurSightError
              \<and> \<not> caught_by e CValidationError \<and> \<not> caught_by e CAPIError
              \<and> \<not> caught_by e CRateLimitError))"
proof (intro conjI impI)
  assume "int attempt < max_retries c - 1 \<and> transport_failure (net attempt)"
  then show "attempts c net rq attempt w =
        attempts c net rq (Suc attempt)
          (w\<lparr>now := now w + 2 ^ attempt,
             trace := trace w @ [Dispatched rq, Slept (2 ^ attempt)]\<rparr>)"
    by (simp add: attempts_transport_retry)
next
  show "dispatches (trace (snd (snd (make_request c net rq w))))
        \<le> dispatches (trace w) + nat (max_retries c)"
    using attempts_frame [of "fst (wait_for_rate_limit c w)" net rq 0 "snd (wait_for_rate_limit c w)"]
    by (simp add: make_request_unfold wait_for_rate_limit_trace)
next
  assume h: "1 \<le> max_retries c \<and> (\<forall>i. int i < max_retries c \<longrightarrow> transport_failure (net i))"
  let ?c1 = "fst (wait_for_rate_limit c w)" and ?w1 = "snd (wait_for_rate_limit c w)"
  have all: "\<forall>i. int i < max_retries ?c1 \<longrightarrow> transport_failure (net i)"
    and pos: "int 0 < max_retries ?c1"
    using h by (simp_all add: wait_for_rate_limit_trace)
  note run = attempts_all_transport [OF all pos, of rq ?w1]
  have res: "fst (make_request c net rq w)
               = Inl (terminal_error c (net (nat (max_retries c) - 1)))"
    using run
    by (simp add: make_request_unfold wait_for_rate_limit_trace terminal_error_def
        cong: outcome.case_cong)
  have "int (nat (max_retries c) - 1) < max_retries c" using h by linarith
  with h have last: "transport_failure (net (nat (max_retries c) - 1))" by blast
  then obtain m where m: "terminal_error c (net (nat (max_retries c) - 1)) = FurSightError m"
    by (auto simp: transport_failure_def terminal_error_def split: outcome.splits)
  {
    assume "net (nat (max_retries c) - 1) = Timeout"
    then show "fst (make_request c net rq w)
             = Inl (FurSightError
                      (''Request timeout after '' @ str_int (timeout c) @ '' seconds''))"
      by (simp add: res terminal_error_def)
  }
  show "\<forall>e. net (nat (max_retries c) - 1) = RequestException e \<longrightarrow>
              fst (make_request c net rq w) = Inl (FurSightError (''Request failed: '' @ e))"
    by (simp add: res terminal_error_def)
  show tr: "trace (snd (snd (make_request c net rq w)))
          = trace (snd (wait_for_rate_limit c w))
              @ concat (map (\<lambda>i. [Dispatched rq, Slept (2 ^ i)]) [0..<nat (max_retries c) - 1])
              @ [Dispatched rq]"
    using run by (simp add: make_request_unfold wait_for_rate_limit_trace)
  have cnt: "dispatches (concat (map (\<lambda>i. [Dispatched rq, Slept (2 ^ i)]) [0..<k])) = k" for k
    by (induction k) simp_all
  show "dispatches (trace (snd (snd (make_request c net rq w))))
          = dispatches (trace w) + nat (max_retries c)"
    using h by (simp add: tr cnt wait_for_rate_limit_trace)
  show "\<exists>m. fst (make_request c net rq w) = Inl (FurSightError m)"
    using res m by simp
  show "\<forall>e. fst (make_request c net rq w) = Inl e \<longrightarrow>
              class_of e = CFurSightError \<and> caught_by e CFurSightError
              \<and> \<not> caught_by e CValidationError \<and> \<not> caught_by e CAPIError
              \<and> \<not> caught_by e CRateLimitError"
    using res m by (simp add: caught_by_def)
qed

theorem transport_backoff_witness:
  "attempts demo_client (\<lambda>n. if n = 1 then RequestException ''connection reset'' else Timeout)
      demo_request 0 demo_world
     = attempts demo_client (\<lambda>n. if n = 1 then RequestException ''connection reset'' else Timeout)
         demo_request (Suc 0)
         (demo_world\<lparr>now := now demo_world + 2 ^ 0,
            trace := trace demo_world @ [Dispatched demo_request, Slept (2 ^ 0)]\<rparr>)
   \<and> fst (make_request demo_client
          (\<lambda>n. if n = 1 then RequestException ''connection reset'' else Timeout)
          demo_request demo_world)
     = Inl (FurSightError ''Request timeout after 30 seconds'')
   \<and> fst (make_request (demo_client\<lparr>max_retries := 2\<rparr>)
          (\<lambda>n. if n = 1 then RequestException ''connection reset'' else Timeout)
          demo_request demo_world)
     = Inl (FurSightError ''Request failed: connection reset'')
   \<and> trace (snd (snd (make_request demo_client
          (\<lambda>n. if n = 1 then RequestException ''connection reset'' else Timeout)
          demo_request demo_world)))
     = [Slept (1 / 10), MarkerSet (1 / 10), Dispatched demo_request, Slept 1,
        Dispatched demo_request, Slept 2, Dispatched demo_request]"
proof -
  let ?net = "\<lambda>n::nat. if n = 1 then RequestException ''connection reset'' else Timeout"
  have tf: "1 \<le> max_retries demo_client \<and> (\<forall>i. int i < max_retries demo_client \<longrightarrow>
      transport_failure (?net i))"
    by (simp add: transport_failure_def demo_client_def)
  have tf2: "1 \<le> max_retries (demo_client\<lparr>max_retries := 2\<rparr>)
      \<and> (\<forall>i. int i < max_retries (demo_client\<lparr>max_retries := 2\<rparr>) \<longrightarrow>
      transport_failure (?net i))"
    by (simp add: transport_failure_def)
  have n: "nat (max_retries demo_client) - Suc 0 = 2" "[0..<2] = [0, Suc 0]"
    "timeout demo_client = 30"
    by (simp_all add: demo_client_def upt_conv_Cons)
  have w1: "trace (snd (wait_for_rate_limit demo_client demo_world))
              = [Slept (1 / 10), MarkerSet (1 / 10)]"
    by (simp add: demo_client_def demo_world_def wait_for_rate_limit_def time_sleep_def Let_def)
  have 1: "attempts demo_client ?net demo_request 0 demo_world
     = attempts demo_client ?net demo_request (Suc 0)
         (demo_world\<lparr>now := now demo_world + 2 ^ 0,
            trace := trace demo_world @ [Dispatched demo_request, Slept (2 ^ 0)]\<rparr>)"
    using transport_backoff [of 0 demo_client ?net demo_request demo_world, THEN conjunct1]
    by (simp add: demo_client_def transport_failure_def)
  have 2: "fst (make_request demo_client ?net demo_request demo_world)
             = Inl (FurSightError ''Request timeout after 30 seconds'')
     \<and> trace (snd (snd (make_request demo_client ?net demo_request demo_world)))
     = [Slept (1 / 10), MarkerSet (1 / 10), Dispatched demo_request, Slept 1,
        Dispatched demo_request, Slept 2, Dispatched demo_request]"
    using transport_backoff [of 0 demo_client ?net demo_request demo_world,
        THEN conjunct2, THEN conjunct2, rule_format, OF tf]
    by (simp add: n w1 str_int_def str_nat.simps)
  have 3: "fst (make_request (demo_client\<lparr>max_retries := 2\<rparr>) ?net demo_request demo_world)
     = Inl (FurSightError ''Request failed: connection reset'')"
    using transport_backoff [of 0 "demo_client\<lparr>max_retries := 2\<rparr>" ?net demo_request
        demo_world, THEN conjunct2, THEN conjunct2, rule_format, OF tf2]
    by simp
  from 1 2 3 show ?thesis by simp
qed

section \<open>Rate limiting\<close>





section \<open>The record that is sent\<close>

lemma wait_for_rate_limit_no_dispatch:
  "Dispatched rq \<in> set (trace (snd (wait_for_rate_limit c w))) \<longleftrightarrow> Dispatched rq \<in> set (trace w)"
  by (simp add: wait_for_rate_limit_def time_sleep_def Let_def)

lemma make_request_payload:
  "Dispatched rq' \<in> set (trace (snd (snd (make_request c net rq w))))
     \<Longrightarrow> Dispatched rq' \<in> set (trace w) \<or> rq' = rq"
  using attempts_frame [of "fst (wait_for_rate_limit c w)" net rq 0 "snd (wait_for_rate_limit c w)"]
  by (auto simp: make_request_unfold wait_for_rate_limit_no_dispatch)

lemma new_profile_unset:
  "name \<notin> fst ` set kwargs \<Longrightarrow> new_profile kwargs name = PNone"
  by (simp add: new_profile_def map_of_eq_None_iff [THEN iffD2])

lemma map_of_model_dump:
  "map_of (model_dump names p) name = (if name \<in> set names then Some (p name) else None)"
  by (induction names) (simp_all add: model_dump_def)

text \<open>
  C2, as amended. The merged prediction record holds exactly the keys of the two inputs
  after conversion, each with the value given (the dog's on a collision): a key absent from
  both inputs is absent from the record, but a key whose value is \<^verbatim>\<open>None\<close> is kept and maps to
  \<^verbatim>\<open>None\<close>. A profile model is converted by \<^verbatim>\<open>model_dump()\<close>, which lists every declared field,
  so each field of a model that was never set reaches the record as \<^verbatim>\<open>None\<close> (unless the dog
  input gives the key a value). Every request that \<^verbatim>\<open>predict_single\<close> dispatches carries this
  record as its JSON body.
\<close>

theorem prediction_record_keeps_none:
  assumes "distinct (map fst (dog_to_dict dog))"
  shows "map_of (prediction_data adopter dog)
           = map_of (adopter_to_dict adopter) ++ map_of (dog_to_dict dog)
    \<and> (\<forall>k. k \<notin> fst ` set (adopter_to_dict adopter) \<and> k \<notin> fst ` set (dog_to_dict dog)
          \<longrightarrow> map_of (prediction_data adopter dog) k = None)
    \<and> (\<forall>k. map_of (dog_to_dict dog) k = Some PNone
          \<longrightarrow> map_of (prediction_data adopter dog) k = Some PNone)
    \<and> (\<forall>k. map_of (adopter_to_dict adopter) k = Some PNone \<and> k \<notin> fst ` set (dog_to_dict dog)
          \<longrightarrow> map_of (prediction_data adopter dog) k = Some PNone)
    \<and> (\<forall>kwargs name. adopter = AdopterModel (new_profile kwargs)
          \<and> name \<in> set AdopterProfile_fields \<and> name \<notin> fst ` set kwargs
          \<and> name \<notin> fst ` set (dog_to_dict dog)
          \<longrightarrow> map_of (prediction_data adopter dog) name = Some PNone)
    \<and> (\<forall>kwargs name. dog = DogModel (new_profile kwargs)
          \<and> name \<in> set DogProfile_fields \<and> name \<notin> fst ` set kwargs
          \<longrightarrow> map_of (prediction_data adopter dog) name = Some PNone)
    \<and> (\<forall>rq. Dispatched rq
                \<in> set (trace (snd (snd (predict_single c net adopter dog include_explanation w))))
          \<longrightarrow> Dispatched rq \<in> set (trace w) \<or> json rq = Some (prediction_data adopter dog))"
proof -
  have m: "map_of (prediction_data adopter dog)
           = map_of (adopter_to_dict adopter) ++ map_of (dog_to_dict dog)"
    using assms by (simp add: prediction_data_def map_of_dict_merge)
  have none: "k \<notin> fst ` set xs \<Longrightarrow> map_of xs k = None" for k and xs :: dict
    by (simp add: map_of_eq_None_iff)
  show ?thesis
  proof (intro conjI allI impI)
    show "map_of (prediction_data adopter dog)
           = map_of (adopter_to_dict adopter) ++ map_of (dog_to_dict dog)"
      by (rule m)
  next
    fix k
    assume "k \<notin> fst ` set (adopter_to_dict adopter) \<and> k \<notin> fst ` set (dog_to_dict dog)"
    then show "map_of (prediction_data adopter dog) k = None"
      by (simp add: m map_add_def none)
  next
    fix k
    assume "map_of (dog_to_dict dog) k = Some PNone"
    then show "map_of (prediction_data adopter dog) k = Some PNone"
      by (simp add: m map_add_def)
  next
    fix k
    assume "map_of (adopter_to_dict adopter) k = Some PNone \<and> k \<notin> fst ` set (dog_to_dict dog)"
    then show "map_of (prediction_data adopter dog) k = Some PNone"
      by (simp add: m map_add_def none)
  next
    fix kwargs name
    assume "adopter = AdopterModel (new_profile kwargs)
          \<and> name \<in> set AdopterProfile_fields \<and> name \<notin> fst ` set kwargs
          \<and> name \<notin> fst ` set (dog_to_dict dog)"
    then show "map_of (prediction_data adopter dog) name = Some PNone"
      using m
      by (simp add: map_add_def none adopter_to_dict_def map_of_model_dump new_profile_unset)
  next
    fix kwargs name
    assume "dog = DogModel (new_profile kwargs)
          \<and> name \<in> set DogProfile_fields \<and> name \<notin> fst ` set kwargs"
    then show "map_of (prediction_data adopter dog) name = Some PNone"
      using m
      by (simp add: map_add_def dog_to_dict_def map_of_model_dump new_profile_unset)
  next
    fix rq
    assume "Dispatched rq
                \<in> set (trace (snd (snd (predict_single c net adopter dog include_explanation w))))"
    then show "Dispatched rq \<in> set (trace w) \<or> json rq = Some (prediction_data adopter dog)"
      by (auto simp: predict_single_def dest!: make_request_payload)
  qed
qed

theorem prediction_record_keeps_none_witness:
  "map_of (prediction_data (AdopterDict none_adopter) (DogDict small_dog)) ''adopter_num_kids''
     = Some PNone
   \<and> map_of (prediction_data (AdopterDict none_adopter) (DogDict small_dog)) ''dog_age'' = None
   \<and> map_of (prediction_data (AdopterModel (new_profile [(''adopter_has_kids'', PStr ''No'')]))
        (DogDict small_dog)) ''adopter_yard_type'' = Some PNone"
proof -
  have d: "distinct (map fst (dog_to_dict (DogDict small_dog)))"
    by (simp add: dog_to_dict_def small_dog_def)
  note t = prediction_record_keeps_none [OF d, of _ demo_client "\<lambda>n. Timeout" True demo_world]
  have 1: "map_of (prediction_data (AdopterDict none_adopter) (DogDict small_dog))
             ''adopter_num_kids'' = Some PNone"
    using t [of "AdopterDict none_adopter", THEN conjunct2, THEN conjunct2, THEN conjunct2,
        THEN conjunct1, rule_format, of "''adopter_num_kids''"]
    by (simp add: adopter_to_dict_def dog_to_dict_def none_adopter_def small_dog_def)
  have 2: "map_of (prediction_data (AdopterDict none_adopter) (DogDict small_dog)) ''dog_age''
             = None"
    using t [of "AdopterDict none_adopter", THEN conjunct2, THEN conjunct1, rule_format,
        of "''dog_age''"]
    by (simp add: adopter_to_dict_def dog_to_dict_def none_adopter_def small_dog_def)
  have 3: "map_of (prediction_data (AdopterModel (new_profile [(''adopter_has_kids'', PStr ''No'')]))
        (DogDict small_dog)) ''adopter_yard_type'' = Some PNone"
    using t [of "AdopterModel (new_profile [(''adopter_has_kids'', PStr ''No'')])",
        THEN conjunct2, THEN conjunct2, THEN conjunct2, THEN conjunct2, THEN conjunct1,
        rule_format, of "[(''adopter_has_kids'', PStr ''No'')]" "''adopter_yard_type''"]
    by (simp add: dog_to_dict_def small_dog_def AdopterProfile_fields_def)
  from 1 2 3 show ?thesis by simp
qed

text \<open>
  The claim as stated fails on a dict that gives a field the value \<^verbatim>\<open>None\<close>, and on a model
  with a field left unset: in both cases the key is in the record that is dispatched, with
  the value \<^verbatim>\<open>None\<close>.
\<close>

theorem prediction_record_counterexample:
  "trace (snd (snd (predict_single demo_client (\<lambda>n. Response (demo_response 200))
       (AdopterDict none_adopter) (DogDict small_dog) True demo_world)))
     = [Slept (1 / 10), MarkerSet (1 / 10),
        Dispatched \<lparr>http_method = ''POST'', endpoint = ''/predict/single'',
          json = Some [(''adopter_has_kids'', PStr ''No''), (''adopter_num_kids'', PNone),
                       (''dog_size'', PStr ''Small'')],
          params = [(''include_explanation'', PBool True)]\<rparr>]
   \<and> map_of (prediction_data (AdopterModel (new_profile [(''adopter_has_kids'', PStr ''No'')]))
        (DogDict small_dog)) ''adopter_num_kids'' = Some PNone
   \<and> length (prediction_data (AdopterModel (new_profile [(''adopter_has_kids'', PStr ''No'')]))
        (DogDict small_dog)) = 51"
proof (intro conjI)
  show "trace (snd (snd (predict_single demo_client (\<lambda>n. Response (demo_response 200))
       (AdopterDict none_adopter) (DogDict small_dog) True demo_world)))
     = [Slept (1 / 10), MarkerSet (1 / 10),
        Dispatched \<lparr>http_method = ''POST'', endpoint = ''/predict/single'',
          json = Some [(''adopter_has_kids'', PStr ''No''), (''adopter_num_kids'', PNone),
                       (''dog_size'', PStr ''Small'')],
          params = [(''include_explanation'', PBool True)]\<rparr>]"
    by (simp add: predict_single_def make_request_def wait_for_rate_limit_def demo_client_def
        demo_world_def demo_response_def attempts.simps time_sleep_def dispatch_def ok_def
        prediction_data_def adopter_to_dict_def dog_to_dict_def dict_merge_def none_adopter_def
        small_dog_def Let_def)
  show "map_of (prediction_data (AdopterModel (new_profile [(''adopter_has_kids'', PStr ''No'')]))
        (DogDict small_dog)) ''adopter_num_kids'' = Some PNone"
    by (simp add: prediction_data_def adopter_to_dict_def dog_to_dict_def small_dog_def
        map_of_dict_merge map_of_model_dump new_profile_def AdopterProfile_fields_def
        map_add_def)
  show "length (prediction_data (AdopterModel (new_profile [(''adopter_has_kids'', PStr ''No'')]))
        (DogDict small_dog)) = 51"
    by (simp add: prediction_data_def adopter_to_dict_def dog_to_dict_def small_dog_def
        dict_merge_def model_dump_def AdopterProfile_fields_def)
qed

end
